theory Spec2Isabelle
  imports Main "HOL-Library.Multiset"
begin

section \<open>Attribute values\<close>

text \<open>
  Resource attributes and policy condition values are Go \<^verbatim>\<open>interface{}\<close> values produced
  by the JSON and YAML decoders. A Go map is kept as an association list read with
  \<^const>\<open>map_of\<close>; it is empty exactly when the list is. A \<^verbatim>\<open>float64\<close> is carried by its
  \<^verbatim>\<open>%v\<close> rendering, the only thing the engine ever observes of it.
\<close>

datatype val =
    VNil
  | VBool bool
  | VInt int
  | VFloat string
  | VStr string
  | VList "val list"
  | VMap "(string \<times> val) list"

type_synonym attrs = "(string \<times> val) list"

section \<open>String helpers of the Go standard library\<close>

fun HasPrefix :: "string \<Rightarrow> string \<Rightarrow> bool" where
  "HasPrefix s [] = True"
| "HasPrefix [] (p # ps) = False"
| "HasPrefix (c # cs) (p # ps) = (c = p \<and> HasPrefix cs ps)"

text \<open>\<^verbatim>\<open>strings.Contains(s, sub)\<close>.\<close>

fun Contains :: "string \<Rightarrow> string \<Rightarrow> bool" where
  "Contains [] sub = (sub = [])"
| "Contains (c # cs) sub = (HasPrefix (c # cs) sub \<or> Contains cs sub)"

text \<open>Lower case on ASCII text, where the letters A to Z are mapped and every other byte is
  kept. On such text this is what \<^verbatim>\<open>strings.ToLower\<close> does.\<close>

definition lower_char :: "char \<Rightarrow> char" where
  "lower_char c =
     (let n = (of_char c :: nat) in if 65 \<le> n \<and> n \<le> 90 then char_of (n + 32) else c)"

definition ascii_lower :: "string \<Rightarrow> string" where
  "ascii_lower s = map lower_char s"

text \<open>\<^verbatim>\<open>strings.Join(elems, sep)\<close>.\<close>

fun Join :: "string list \<Rightarrow> string \<Rightarrow> string" where
  "Join [] sep = []"
| "Join [x] sep = x"
| "Join (x # y # ys) sep = x @ sep @ Join (y # ys) sep"

text \<open>\<^verbatim>\<open>strings.Split(s, ".")\<close>: the pieces between the dots, never an empty list.\<close>

fun split_dots :: "string \<Rightarrow> string list" where
  "split_dots [] = [[]]"
| "split_dots (c # cs) =
     (if c = CHR ''.'' then [] # split_dots cs
      else (case split_dots cs of [] \<Rightarrow> [[c]] | p # ps \<Rightarrow> (c # p) # ps))"

text \<open>\<^verbatim>\<open>strings.ReplaceAll(pattern, "*", ".*")\<close>.\<close>

fun star_to_dotstar :: "string \<Rightarrow> string" where
  "star_to_dotstar [] = []"
| "star_to_dotstar (c # cs) =
     (if c = CHR ''*'' then CHR ''.'' # CHR ''*'' # star_to_dotstar cs
      else c # star_to_dotstar cs)"

subsection \<open>\<^verbatim>\<open>fmt.Sprint\<close>\<close>

fun dec_nat :: "nat \<Rightarrow> string" where
  "dec_nat n =
     (if n < 10 then [char_of (48 + n)]
      else dec_nat (n div 10) @ [char_of (48 + n mod 10)])"

declare dec_nat.simps [simp del]

definition dec_int :: "int \<Rightarrow> string" where
  "dec_int i = (if i < 0 then CHR ''-'' # dec_nat (nat (- i)) else dec_nat (nat i))"

text \<open>Byte-wise order on strings, used by \<^verbatim>\<open>fmt\<close> to print a map with its keys sorted.\<close>

fun str_le :: "string \<Rightarrow> string \<Rightarrow> bool" where
  "str_le [] t = True"
| "str_le (c # cs) [] = False"
| "str_le (c # cs) (d # ds) =
     ((of_char c :: nat) < of_char d \<or> (c = d \<and> str_le cs ds))"

fun insert_key :: "string \<times> string \<Rightarrow> (string \<times> string) list \<Rightarrow> (string \<times> string) list" where
  "insert_key kv [] = [kv]"
| "insert_key kv (x # xs) =
     (if fst kv = fst x then x # xs
      else if str_le (fst kv) (fst x) then kv # x # xs
      else x # insert_key kv xs)"

definition sort_keys :: "(string \<times> string) list \<Rightarrow> (string \<times> string) list" where
  "sort_keys kvs = foldr insert_key kvs []"

text \<open>
  \<^verbatim>\<open>fmt.Sprint(v)\<close>, which is also what the verb \<^verbatim>\<open>%v\<close> prints: a string as it is, a
  slice as \<^verbatim>\<open>[a b]\<close>, a map as \<^verbatim>\<open>map[k:v]\<close> with sorted keys (of two entries with one
  key the first one is the map's).
\<close>

fun Sprint :: "val \<Rightarrow> string" where
  "Sprint VNil = ''<nil>''"
| "Sprint (VBool b) = (if b then ''true'' else ''false'')"
| "Sprint (VInt i) = dec_int i"
| "Sprint (VFloat s) = s"
| "Sprint (VStr s) = s"
| "Sprint (VList vs) = ''['' @ Join (map Sprint vs) '' '' @ '']''"
| "Sprint (VMap kvs) =
     ''map['' @
       Join (map (\<lambda>kv. fst kv @ '':'' @ snd kv)
              (sort_keys (rev (map (\<lambda>kv. (fst kv, Sprint (snd kv))) kvs)))) '' ''
     @ '']''"

section \<open>Data model of the rule engine\<close>

text \<open>\<^verbatim>\<open>cloud.ValidationRule\<close>. \<^verbatim>\<open>Conditions\<close> is a Go map: the list holds its entries.\<close>

record ValidationRule =
  rule_Name :: string
  rule_Description :: string
  rule_Severity :: string
  rule_Category :: string
  rule_Enabled :: bool
  rule_ResourceTypes :: "string list"
  rule_Conditions :: attrs
  rule_Message :: string
  rule_Remediation :: string

text \<open>\<^verbatim>\<open>cloud.ValidationResult\<close>.\<close>

record ValidationResult =
  ResourceID :: string
  RuleName :: string
  Passed :: bool
  Message :: string
  Severity :: string
  Remediation :: string
  Details :: "string list"

text \<open>\<^verbatim>\<open>rules.Policy\<close>.\<close>

record Policy =
  pol_Version :: string
  pol_Name :: string
  pol_Description :: string
  pol_Rules :: "ValidationRule list"

text \<open>
  \<^verbatim>\<open>regexp.MatchString(pattern, s)\<close> of the Go standard library is a parameter of the
  model: it returns \<open>Inl\<close> of the error text for a pattern that does not compile and
  \<open>Inr\<close> of the verdict otherwise.
\<close>

type_synonym regexp = "string \<Rightarrow> string \<Rightarrow> string + bool"

text \<open>
  \<^verbatim>\<open>strings.ToLower\<close>, which lowers every Unicode letter, is a parameter as well. The two
  library functions travel together.
\<close>

record golib =
  regexp_MatchString :: regexp
  strings_ToLower :: "string \<Rightarrow> string"

text \<open>
  A \<^verbatim>\<open>range\<close> over a Go map visits the entries in an order the runtime picks afresh
  each time. The order picked during one call of \<^verbatim>\<open>EvaluateRule\<close> is a parameter: one
  choice for the rule's \<^verbatim>\<open>Conditions\<close> and one for the keys of \<^verbatim>\<open>publicFields\<close>. A
  choice is admissible when it only permutes.
\<close>

record ranging =
  range_conditions :: "attrs \<Rightarrow> attrs"
  range_fields :: "string list \<Rightarrow> string list"

definition admissible :: "ranging \<Rightarrow> bool" where
  "admissible rg \<longleftrightarrow>
     (\<forall>m. mset (range_conditions rg m) = mset m) \<and> (\<forall>ks. mset (range_fields rg ks) = mset ks)"

definition quoted :: "string \<Rightarrow> string" where
  "quoted s = CHR 0x27 # s @ [CHR 0x27]"

section \<open>Condition checkers\<close>

text \<open>
  Every checker of \<^verbatim>\<open>engine.go\<close> returns a verdict and may append to
  \<^verbatim>\<open>result.Details\<close> through the pointer it is given; here it takes the details so far
  and returns them with the verdict.
\<close>

text \<open>The type assertion \<^verbatim>\<open>b, ok := v.(bool)\<close>: the value and whether \<^verbatim>\<open>v\<close> holds a bool.\<close>

fun as_bool :: "val \<Rightarrow> bool \<times> bool" where
  "as_bool (VBool b) = (b, True)"
| "as_bool v = (False, False)"

definition checkRequiredTags :: "val \<Rightarrow> attrs \<Rightarrow> string list \<Rightarrow> bool \<times> string list" where
  "checkRequiredTags expected resource ds =
     (case expected of
        VList requiredTags \<Rightarrow>
          (case map_of resource ''tags'' of
             Some (VMap tags) \<Rightarrow>
               (let missingTags = filter (\<lambda>tagName. map_of tags tagName = None)
                                         (map Sprint requiredTags)
                in if length missingTags > 0
                   then (False, ds @ [''Missing required tags: '' @ Join missingTags '', ''])
                   else (True, ds))
           | _ \<Rightarrow> (False, ds @ [''No tags found on resource'']))
      | _ \<Rightarrow> (False, ds @ [''Invalid tags.required configuration'']))"

text \<open>The test \<^verbatim>\<open>boolVal || len(mapVal) > 0\<close> on one field of the resource.\<close>

definition true_or_nonempty :: "attrs \<Rightarrow> string \<Rightarrow> bool" where
  "true_or_nonempty resource field =
     (case map_of resource field of
        Some (VBool b) \<Rightarrow> b
      | Some (VMap m) \<Rightarrow> m \<noteq> []
      | _ \<Rightarrow> False)"

definition encryptionFields :: "string list" where
  "encryptionFields = [''encryption'', ''encrypted'', ''encryption_configuration'',
     ''server_side_encryption_configuration'', ''encryption_at_rest'']"

definition checkEncryptionEnabled :: "val \<Rightarrow> attrs \<Rightarrow> string list \<Rightarrow> bool \<times> string list" where
  "checkEncryptionEnabled expected resource ds =
     (if \<not> snd (as_bool expected) \<or> \<not> fst (as_bool expected) then (True, ds)
      else if list_ex (true_or_nonempty resource) encryptionFields then (True, ds)
      else (False, ds @ [''Encryption is not enabled'']))"

definition publicFields :: "string list" where
  "publicFields = [''public'', ''publicly_accessible'', ''public_access_enabled'', ''acl'']"

fun publicLoop ::
  "(string \<Rightarrow> string) \<Rightarrow> string list \<Rightarrow> attrs \<Rightarrow> string list \<Rightarrow> bool \<times> string list" where
  "publicLoop ToLower [] resource ds = (True, ds)"
| "publicLoop ToLower (field # fs) resource ds =
     (case map_of resource field of
        Some (VBool b) \<Rightarrow>
          (if b then (False, ds @ [''Resource has public access via '' @ quoted field])
           else publicLoop ToLower fs resource ds)
      | Some (VStr strVal) \<Rightarrow>
          (if Contains (ToLower strVal) ''public''
           then (False, ds @ [''Resource has public access via '' @ quoted field @ '': '' @ strVal])
           else publicLoop ToLower fs resource ds)
      | _ \<Rightarrow> publicLoop ToLower fs resource ds)"

definition checkPublicAccessBlocked ::
  "(string \<Rightarrow> string) \<Rightarrow> (string list \<Rightarrow> string list) \<Rightarrow> val \<Rightarrow> attrs \<Rightarrow> string list
     \<Rightarrow> bool \<times> string list" where
  "checkPublicAccessBlocked ToLower visit expected resource ds =
     (if \<not> snd (as_bool expected) \<or> \<not> fst (as_bool expected) then (True, ds)
      else publicLoop ToLower (visit publicFields) resource ds)"

definition versioningFields :: "string list" where
  "versioningFields = [''versioning'', ''versioning_configuration'', ''version_enabled'']"

definition versioning_on :: "attrs \<Rightarrow> string \<Rightarrow> bool" where
  "versioning_on resource field =
     (case map_of resource field of
        Some (VBool b) \<Rightarrow> b
      | Some (VMap m) \<Rightarrow> (case map_of m ''enabled'' of Some (VBool enabled) \<Rightarrow> enabled | _ \<Rightarrow> False)
      | _ \<Rightarrow> False)"

definition checkVersioningEnabled :: "val \<Rightarrow> attrs \<Rightarrow> string list \<Rightarrow> bool \<times> string list" where
  "checkVersioningEnabled expected resource ds =
     (if \<not> snd (as_bool expected) \<or> \<not> fst (as_bool expected) then (True, ds)
      else if list_ex (versioning_on resource) versioningFields then (True, ds)
      else (False, ds @ [''Versioning is not enabled'']))"

definition loggingFields :: "string list" where
  "loggingFields = [''logging'', ''logging_configuration'', ''log_configuration'', ''enable_logging'']"

definition checkLoggingEnabled :: "val \<Rightarrow> attrs \<Rightarrow> string list \<Rightarrow> bool \<times> string list" where
  "checkLoggingEnabled expected resource ds =
     (if \<not> snd (as_bool expected) \<or> \<not> fst (as_bool expected) then (True, ds)
      else if list_ex (true_or_nonempty resource) loggingFields then (True, ds)
      else (False, ds @ [''Logging is not enabled'']))"

definition backupFields :: "string list" where
  "backupFields = [''backup'', ''backup_configuration'', ''backup_enabled'', ''backup_retention_period'']"

definition backup_on :: "attrs \<Rightarrow> string \<Rightarrow> bool" where
  "backup_on resource field =
     (case map_of resource field of
        Some (VBool b) \<Rightarrow> b
      | Some (VInt intVal) \<Rightarrow> intVal > 0
      | Some (VMap m) \<Rightarrow> m \<noteq> []
      | _ \<Rightarrow> False)"

definition checkBackupEnabled :: "val \<Rightarrow> attrs \<Rightarrow> string list \<Rightarrow> bool \<times> string list" where
  "checkBackupEnabled expected resource ds =
     (if \<not> snd (as_bool expected) \<or> \<not> fst (as_bool expected) then (True, ds)
      else if list_ex (backup_on resource) backupFields then (True, ds)
      else (False, ds @ [''Backup is not configured'']))"

definition nameFields :: "string list" where
  "nameFields = [''name'', ''id'', ''resource_name'']"

fun namingLoop :: "regexp \<Rightarrow> string \<Rightarrow> string list \<Rightarrow> attrs \<Rightarrow> string list \<Rightarrow> bool \<times> string list" where
  "namingLoop re pattern [] resource ds = (True, ds)"
| "namingLoop re pattern (field # fs) resource ds =
     (case map_of resource field of
        Some (VStr name) \<Rightarrow>
          (case re pattern name of
             Inl err \<Rightarrow> (False, ds @ [''Invalid regex pattern: '' @ err])
           | Inr matched \<Rightarrow>
               (if \<not> matched
                then (False, ds @ [''Name '' @ quoted name @ '' does not match pattern ''
                                   @ quoted pattern])
                else (True, ds)))
      | _ \<Rightarrow> namingLoop re pattern fs resource ds)"

definition checkNamingPattern :: "regexp \<Rightarrow> val \<Rightarrow> attrs \<Rightarrow> string list \<Rightarrow> bool \<times> string list" where
  "checkNamingPattern re expected resource ds =
     (case expected of
        VStr pattern \<Rightarrow> namingLoop re pattern nameFields resource ds
      | _ \<Rightarrow> (True, ds))"

definition policyFields :: "string list" where
  "policyFields = [''policy'', ''policy_document'', ''policy_arn'']"

definition wildcard_policy :: "attrs \<Rightarrow> string \<Rightarrow> bool" where
  "wildcard_policy resource field =
     (case map_of resource field of
        Some (VStr strVal) \<Rightarrow>
          Contains strVal ''*:*'' \<or> Contains strVal [CHR 0x22, CHR ''*'', CHR 0x22]
      | _ \<Rightarrow> False)"

definition checkLeastPrivilege :: "val \<Rightarrow> attrs \<Rightarrow> string list \<Rightarrow> bool \<times> string list" where
  "checkLeastPrivilege expected resource ds =
     (if list_ex (wildcard_policy resource) policyFields
      then (False, ds @ [''Policy contains wildcard permissions''])
      else (True, ds))"

definition checkPrivateSubnet :: "val \<Rightarrow> attrs \<Rightarrow> string list \<Rightarrow> bool \<times> string list" where
  "checkPrivateSubnet expected resource ds =
     (if \<not> snd (as_bool expected) \<or> \<not> fst (as_bool expected) then (True, ds)
      else (case map_of resource ''subnet_id'' of
              Some (VStr strVal) \<Rightarrow>
                (if Contains strVal ''public''
                 then (False, ds @ [''Resource is in a public subnet''])
                 else (True, ds))
            | _ \<Rightarrow> (True, ds)))"

text \<open>The navigation loop of \<^verbatim>\<open>checkProperty\<close> over the parts of the dotted path.\<close>

fun navigate :: "string \<Rightarrow> val \<Rightarrow> string list \<Rightarrow> attrs \<Rightarrow> string list \<Rightarrow> bool \<times> string list" where
  "navigate propertyPath expected [] current ds = (True, ds)"
| "navigate propertyPath expected (part # parts) current ds =
     (case map_of current part of
        None \<Rightarrow> (False, ds @ [''Property '' @ quoted propertyPath @ '' not found''])
      | Some v \<Rightarrow>
          (if parts = [] then
             (if Sprint v \<noteq> Sprint expected
              then (False, ds @ [''Property '' @ quoted propertyPath @ '' has value ''
                        @ quoted (Sprint v) @ '', expected '' @ quoted (Sprint expected)])
              else (True, ds))
           else (case v of
                   VMap nested \<Rightarrow> navigate propertyPath expected parts nested ds
                 | _ \<Rightarrow> (False, ds @ [''Cannot navigate property path '' @ quoted propertyPath]))))"

definition checkProperty :: "string \<Rightarrow> val \<Rightarrow> attrs \<Rightarrow> string list \<Rightarrow> bool \<times> string list" where
  "checkProperty propertyPath expected resource ds =
     navigate propertyPath expected (split_dots propertyPath) resource ds"

definition evaluateCondition ::
  "golib \<Rightarrow> (string list \<Rightarrow> string list) \<Rightarrow> string \<Rightarrow> val \<Rightarrow> attrs \<Rightarrow> string list
     \<Rightarrow> bool \<times> string list" where
  "evaluateCondition lib visit condition expected resource ds =
     (if condition = ''tags.required'' then checkRequiredTags expected resource ds
      else if condition = ''encryption.enabled'' then checkEncryptionEnabled expected resource ds
      else if condition = ''public_access.blocked''
        then checkPublicAccessBlocked (strings_ToLower lib) visit expected resource ds
      else if condition = ''versioning.enabled'' then checkVersioningEnabled expected resource ds
      else if condition = ''logging.enabled'' then checkLoggingEnabled expected resource ds
      else if condition = ''backup.enabled'' then checkBackupEnabled expected resource ds
      else if condition = ''naming.pattern'' then checkNamingPattern (regexp_MatchString lib) expected resource ds
      else if condition = ''iam.least_privilege'' then checkLeastPrivilege expected resource ds
      else if condition = ''network.private_subnet'' then checkPrivateSubnet expected resource ds
      else checkProperty condition expected resource ds)"

section \<open>Evaluating a rule\<close>

text \<open>The loop of \<^verbatim>\<open>EvaluateRule\<close> over the conditions in the order they are visited.\<close>

fun conditionsLoop ::
  "golib \<Rightarrow> (string list \<Rightarrow> string list) \<Rightarrow> attrs \<Rightarrow> attrs \<Rightarrow> string list \<Rightarrow> bool \<times> string list" where
  "conditionsLoop lib visit [] resource ds = (True, ds)"
| "conditionsLoop lib visit (ce # rest) resource ds =
     (case evaluateCondition lib visit (fst ce) (snd ce) resource ds of
        (ok, ds') \<Rightarrow> if \<not> ok then (False, ds') else conditionsLoop lib visit rest resource ds')"

definition EvaluateRule :: "golib \<Rightarrow> ranging \<Rightarrow> ValidationRule \<Rightarrow> attrs \<Rightarrow> ValidationResult" where
  "EvaluateRule lib rg rule resource =
     (case conditionsLoop lib (range_fields rg) (range_conditions rg (rule_Conditions rule))
             resource [] of
        (ok, ds) \<Rightarrow>
          \<lparr>ResourceID = [], RuleName = rule_Name rule, Passed = ok, Message = rule_Message rule,
           Severity = rule_Severity rule, Remediation = rule_Remediation rule, Details = ds\<rparr>)"

section \<open>Selecting the rules of a resource type\<close>

text \<open>\<^verbatim>\<open>matched, _ := regexp.MatchString("^"+pattern+"$", resourceType)\<close>: an error leaves
  \<^verbatim>\<open>matched\<close> false.\<close>

definition matchResourceType :: "regexp \<Rightarrow> string \<Rightarrow> string \<Rightarrow> bool" where
  "matchResourceType re pattern resourceType =
     (case re (''^'' @ star_to_dotstar pattern @ ''$'') resourceType of
        Inl err \<Rightarrow> False
      | Inr matched \<Rightarrow> matched)"

fun rulesLoop ::
  "regexp \<Rightarrow> ValidationRule list \<Rightarrow> string \<Rightarrow> ValidationRule list \<Rightarrow> ValidationRule list" where
  "rulesLoop re [] resourceType applicable = applicable"
| "rulesLoop re (rule # rules) resourceType applicable =
     (if \<not> rule_Enabled rule then rulesLoop re rules resourceType applicable
      else if length (rule_ResourceTypes rule) = 0
        then rulesLoop re rules resourceType (applicable @ [rule])
      else if list_ex (\<lambda>rt. matchResourceType re rt resourceType) (rule_ResourceTypes rule)
        then rulesLoop re rules resourceType (applicable @ [rule])
      else rulesLoop re rules resourceType applicable)"

definition GetRulesForResource :: "regexp \<Rightarrow> Policy \<Rightarrow> string \<Rightarrow> ValidationRule list" where
  "GetRulesForResource re policy resourceType = rulesLoop re (pol_Rules policy) resourceType []"

subsection \<open>The regular expressions that type patterns produce\<close>

text \<open>
  What \<^verbatim>\<open>regexp.MatchString\<close> does is fixed here only for the expressions
  \<^verbatim>\<open>^body$\<close> whose body is made of ordinary characters, of \<^verbatim>\<open>.\<close> (one character that
  is not a newline) and of \<^verbatim>\<open>.*\<close> (any run of such characters), following the RE2 syntax
  Go implements, and only on ASCII text, where a character is a byte. Every other
  metacharacter is outside this fragment.
\<close>

definition ascii :: "char \<Rightarrow> bool" where
  "ascii c \<longleftrightarrow> (of_char c :: nat) < 128"

text \<open>The pieces of such a body: a literal character, \<^verbatim>\<open>.\<close> and \<^verbatim>\<open>.*\<close>.\<close>

datatype item = Lit char | AnyChar | AnyStar

text \<open>The characters with a meaning of their own in the syntax of regular expressions; an
  ordinary character is an ASCII character that is none of them.\<close>

definition is_meta :: "char \<Rightarrow> bool" where
  "is_meta c \<longleftrightarrow> c \<in> set [CHR 0x5C, CHR ''.'', CHR ''+'', CHR ''*'', CHR ''?'', CHR ''('', CHR '')'',
                          CHR ''|'', CHR ''['', CHR '']'', CHR ''{'', CHR ''}'', CHR ''^'', CHR ''$'']"

definition ordinary :: "char \<Rightarrow> bool" where
  "ordinary c \<longleftrightarrow> ascii c \<and> \<not> is_meta c"

text \<open>Reading a body: \<open>None\<close> when it leaves the fragment.\<close>

fun parse_items :: "string \<Rightarrow> item list option" where
  "parse_items [] = Some []"
| "parse_items [c] =
     (if c = CHR ''.'' then Some [AnyChar] else if \<not> ordinary c then None else Some [Lit c])"
| "parse_items (c # d # cs) =
     (if c = CHR ''.'' \<and> d = CHR ''*'' then map_option (Cons AnyStar) (parse_items cs)
      else if c = CHR ''.'' then map_option (Cons AnyChar) (parse_items (d # cs))
      else if \<not> ordinary c then None
      else map_option (Cons (Lit c)) (parse_items (d # cs)))"

text \<open>Whether the whole string matches the pieces in sequence.\<close>

fun items_match :: "item list \<Rightarrow> string \<Rightarrow> bool" where
  "items_match [] s = (s = [])"
| "items_match (Lit c # its) [] = False"
| "items_match (Lit c # its) (x # xs) = (x = c \<and> items_match its xs)"
| "items_match (AnyChar # its) [] = False"
| "items_match (AnyChar # its) (x # xs) = (x \<noteq> CHR 0x0A \<and> items_match its xs)"
| "items_match (AnyStar # its) [] = items_match its []"
| "items_match (AnyStar # its) (x # xs) =
     (items_match its (x # xs) \<or> (x \<noteq> CHR 0x0A \<and> items_match (AnyStar # its) xs))"


text \<open>An engine for the fragment alone; it reports every other expression as an error.\<close>

definition fragment_engine :: regexp where
  "fragment_engine p s =
     (case p of
        [] \<Rightarrow> Inl ''unsupported''
      | c # rest \<Rightarrow>
          (if c = CHR ''^'' \<and> rest \<noteq> [] \<and> last rest = CHR ''$''
           then (case parse_items (butlast rest) of
                   Some its \<Rightarrow> Inr (items_match its s)
                 | None \<Rightarrow> Inl ''unsupported'')
           else Inl ''unsupported''))"

text \<open>The library that pairs this engine with ASCII lower case; it serves as an example.\<close>

definition fragment_lib :: golib where
  "fragment_lib = \<lparr>regexp_MatchString = fragment_engine, strings_ToLower = ascii_lower\<rparr>"





section \<open>Drift detection of the provider adapters\<close>

text \<open>\<^verbatim>\<open>cloud.ResourceStatus\<close>; \<^verbatim>\<open>Tags\<close> is a Go map from string to string.\<close>

record ResourceStatus =
  rs_ResourceID :: string
  rs_ResourceType :: string
  Exists :: bool
  State :: string
  Tags :: "(string \<times> string) list"
  Properties :: attrs
  DriftDetected :: bool
  DriftDetails :: "string list"

text \<open>
  The loop over the planned tags, in the order the \<^verbatim>\<open>range\<close> visits them; \<open>word\<close> is
  \<^verbatim>\<open>Tag\<close> for AWS and Azure and \<^verbatim>\<open>Label\<close> for GCP.
\<close>

fun tagsLoop :: "string \<Rightarrow> attrs \<Rightarrow> (string \<times> string) list \<Rightarrow> string list \<Rightarrow> string list" where
  "tagsLoop word [] actualTags driftDetails = driftDetails"
| "tagsLoop word (kv # rest) actualTags driftDetails =
     (case map_of actualTags (fst kv) of
        None \<Rightarrow>
          tagsLoop word rest actualTags
            (driftDetails @ [word @ '' '' @ quoted (fst kv) @ '' missing''])
      | Some actualValue \<Rightarrow>
          (if Sprint (snd kv) \<noteq> actualValue
           then tagsLoop word rest actualTags
                  (driftDetails @ [word @ '' '' @ quoted (fst kv) @ '' differs: planned=''
                     @ Sprint (snd kv) @ '', actual='' @ actualValue])
           else tagsLoop word rest actualTags driftDetails))"

text \<open>
  The three \<^verbatim>\<open>DetectDrift\<close> methods differ in the name of the cloud, in the attribute
  they compare and in the word of the messages. The answer of \<^verbatim>\<open>GetResourceStatus\<close>, a
  call to the provider, and the order in which the planned tags are visited are
  parameters.
\<close>

definition detectDriftWith ::
  "string \<Rightarrow> string \<Rightarrow> string \<Rightarrow> (string \<Rightarrow> string \<Rightarrow> string + ResourceStatus) \<Rightarrow> (attrs \<Rightarrow> attrs)
     \<Rightarrow> attrs \<Rightarrow> string \<Rightarrow> string \<Rightarrow> string + ResourceStatus" where
  "detectDriftWith cloud_name key word GetResourceStatus visit plannedState resourceType resourceID =
     (case GetResourceStatus resourceType resourceID of
        Inl err \<Rightarrow> Inl err
      | Inr actualStatus \<Rightarrow>
          (if \<not> Exists actualStatus
           then Inr (actualStatus\<lparr>DriftDetected := True,
                       DriftDetails := [''Resource does not exist in '' @ cloud_name]\<rparr>)
           else
             (let driftDetails =
                    (case map_of plannedState key of
                       Some (VMap plannedTags) \<Rightarrow>
                         tagsLoop word (visit plannedTags) (Tags actualStatus) []
                     | _ \<Rightarrow> [])
              in if length driftDetails > 0
                 then Inr (actualStatus\<lparr>DriftDetected := True, DriftDetails := driftDetails\<rparr>)
                 else Inr actualStatus)))"

definition aws_DetectDrift ::
  "(string \<Rightarrow> string \<Rightarrow> string + ResourceStatus) \<Rightarrow> (attrs \<Rightarrow> attrs)
     \<Rightarrow> attrs \<Rightarrow> string \<Rightarrow> string \<Rightarrow> string + ResourceStatus" where
  "aws_DetectDrift = detectDriftWith ''AWS'' ''tags'' ''Tag''"

definition azure_DetectDrift ::
  "(string \<Rightarrow> string \<Rightarrow> string + ResourceStatus) \<Rightarrow> (attrs \<Rightarrow> attrs)
     \<Rightarrow> attrs \<Rightarrow> string \<Rightarrow> string \<Rightarrow> string + ResourceStatus" where
  "azure_DetectDrift = detectDriftWith ''Azure'' ''tags'' ''Tag''"

definition gcp_DetectDrift ::
  "(string \<Rightarrow> string \<Rightarrow> string + ResourceStatus) \<Rightarrow> (attrs \<Rightarrow> attrs)
     \<Rightarrow> attrs \<Rightarrow> string \<Rightarrow> string \<Rightarrow> string + ResourceStatus" where
  "gcp_DetectDrift = detectDriftWith ''GCP'' ''labels'' ''Label''"

section \<open>The plan\<close>

text \<open>\<^verbatim>\<open>terraform.Resource\<close> and \<^verbatim>\<open>terraform.Module\<close>.\<close>

record Resource =
  res_Address :: string
  res_Mode :: string
  res_Type :: string
  res_Name :: string
  res_ProviderName :: string
  res_SchemaVersion :: int
  res_Values :: attrs

datatype Module =
  Module (Resources: "Resource list") (ChildModules: "Module list") (Address: string)

text \<open>Of \<^verbatim>\<open>terraform.PlanOutput\<close> the validator reads the planned values only; both
  pointers may be nil.\<close>

record StateValues =
  RootModule :: "Module option"

record PlanOutput =
  FormatVersion :: string
  TerraformVersion :: string
  PlannedValues :: "StateValues option"

fun collectResources :: "Module \<Rightarrow> Resource list" where
  "collectResources (Module resources childModules address) =
     resources @ concat (map collectResources childModules)"

text \<open>
  The flattening the specification describes, written without reference to the code's
  recursion: a depth-first walk with an explicit stack of the modules still to visit, which
  emits the resources of a module and then puts its children on top of the stack. The
  number of modules below a module measures the work left.
\<close>

fun weight :: "Module \<Rightarrow> nat" where
  "weight (Module resources childModules address) = Suc (sum_list (map weight childModules))"

function depth_first :: "Module list \<Rightarrow> Resource list" where
  "depth_first [] = []"
| "depth_first (Module resources childModules address # stack) =
     resources @ depth_first (childModules @ stack)"
  by pat_completeness auto
termination
  by (relation "measure (\<lambda>stack. sum_list (map weight stack))") auto

text \<open>Every resource of the module tree, with the number of times it occurs.\<close>

fun tree_resources :: "Module \<Rightarrow> Resource multiset" where
  "tree_resources (Module resources childModules address) =
     mset resources + sum_list (map tree_resources childModules)"


section \<open>The validator\<close>

definition ModeValidateExisting :: string where
  "ModeValidateExisting = ''validate-existing''"

definition ModeEphemeralSandbox :: string where
  "ModeEphemeralSandbox = ''ephemeral-sandbox''"

record ValidatorConfig =
  Mode :: string
  WorkingDir :: string
  PolicyPath :: string
  CloudProvider :: string
  OutputFormat :: string
  OutputFile :: string
  NoDestroy :: bool
  Verbose :: bool

record ValidationReport =
  ResourceAddress :: string
  ResourceType :: string
  Provider :: string
  Status :: string
  RuleResults :: "ValidationResult list"
  DriftStatus :: "ResourceStatus option"
  Errors :: "string list"

record Summary =
  TotalResources :: int
  PassedResources :: int
  FailedResources :: int
  WarningResources :: int
  ErrorResources :: int
  DriftDetectedCount :: int
  Reports :: "ValidationReport list"

text \<open>
  Of the \<^verbatim>\<open>cloud.Adapter\<close> interface \<^verbatim>\<open>validateResource\<close> calls \<^verbatim>\<open>DetectDrift\<close> alone:
  an adapter is the answer of that method. The validator holds its configuration, the
  loaded policy, the adapter (nil until one is initialised) and the reports so far.
\<close>

type_synonym Adapter = "attrs \<Rightarrow> string \<Rightarrow> string \<Rightarrow> string + ResourceStatus"

record Validator =
  config :: ValidatorConfig
  rulesEngine :: Policy
  cloudAdapter :: "Adapter option"
  results :: "ValidationReport list"

text \<open>The status update inside the loop of \<^verbatim>\<open>validateResource\<close>.\<close>

definition escalate :: "string \<Rightarrow> ValidationResult \<Rightarrow> string" where
  "escalate status result =
     (if \<not> Passed result then
        (if Severity result = ''error'' then ''fail''
         else if Severity result = ''warning'' \<and> status \<noteq> ''fail'' then ''warning''
         else status)
      else status)"

text \<open>The loop over the applicable rules; \<open>rgs i\<close> is the runtime's choice of visiting
  orders during the \<open>i\<close>-th call of \<^verbatim>\<open>EvaluateRule\<close>.\<close>

fun evaluateLoop ::
  "golib \<Rightarrow> (nat \<Rightarrow> ranging) \<Rightarrow> nat \<Rightarrow> ValidationRule list \<Rightarrow> Resource \<Rightarrow> ValidationReport
     \<Rightarrow> ValidationReport" where
  "evaluateLoop lib rgs i [] resource report = report"
| "evaluateLoop lib rgs i (rule # rules) resource report =
     (let result = (EvaluateRule lib (rgs i) rule (res_Values resource))
                     \<lparr>ResourceID := res_Address resource\<rparr>
      in evaluateLoop lib rgs (Suc i) rules resource
           (report\<lparr>RuleResults := RuleResults report @ [result],
                   Status := escalate (Status report) result\<rparr>))"

text \<open>A type assertion \<^verbatim>\<open>s, ok := resource.Values[key].(string)\<close> followed by
  \<^verbatim>\<open>ok && s != ""\<close>.\<close>

definition nonempty_string :: "attrs \<Rightarrow> string \<Rightarrow> string option" where
  "nonempty_string values key =
     (case map_of values key of
        Some (VStr s) \<Rightarrow> if s \<noteq> [] then Some s else None
      | _ \<Rightarrow> None)"

definition extractResourceID :: "Resource \<Rightarrow> string" where
  "extractResourceID resource =
     (case nonempty_string (res_Values resource) ''id'' of
        Some idv \<Rightarrow> idv
      | None \<Rightarrow>
          (case nonempty_string (res_Values resource) ''name'' of
             Some name \<Rightarrow> name
           | None \<Rightarrow>
               (case nonempty_string (res_Values resource) ''arn'' of
                  Some arn \<Rightarrow> arn
                | None \<Rightarrow> [])))"

definition validateResource ::
  "golib \<Rightarrow> (nat \<Rightarrow> ranging) \<Rightarrow> Validator \<Rightarrow> Resource \<Rightarrow> ValidationReport" where
  "validateResource lib rgs v resource =
     (let report0 = \<lparr>ResourceAddress = res_Address resource, ResourceType = res_Type resource,
                      Provider = res_ProviderName resource, Status = ''pass'', RuleResults = [],
                      DriftStatus = None, Errors = []\<rparr>;
          applicableRules =
            GetRulesForResource (regexp_MatchString lib) (rulesEngine v) (res_Type resource);
          report = evaluateLoop lib rgs 0 applicableRules resource report0
      in if Mode (config v) = ModeValidateExisting then
           (case cloudAdapter v of
              None \<Rightarrow> report
            | Some DetectDrift \<Rightarrow>
                (let resourceID = extractResourceID resource
                 in if resourceID \<noteq> [] then
                      (case DetectDrift (res_Values resource) (res_Type resource) resourceID of
                         Inl err \<Rightarrow>
                           report\<lparr>Errors := Errors report @ [''Drift detection failed: '' @ err]\<rparr>
                       | Inr driftStatus \<Rightarrow>
                           (let report1 = report\<lparr>DriftStatus := Some driftStatus\<rparr>
                            in if DriftDetected driftStatus then
                                 (if Status report1 = ''pass''
                                  then report1\<lparr>Status := ''warning''\<rparr> else report1)
                               else report1))
                    else report))
         else report)"

text \<open>The loop of \<^verbatim>\<open>validateResources\<close>; \<open>rgss k\<close> holds the runtime's choices while the
  \<open>k\<close>-th resource is validated.\<close>

fun resourcesLoop ::
  "golib \<Rightarrow> (nat \<Rightarrow> nat \<Rightarrow> ranging) \<Rightarrow> nat \<Rightarrow> Resource list \<Rightarrow> Validator \<Rightarrow> Validator" where
  "resourcesLoop lib rgss k [] v = v"
| "resourcesLoop lib rgss k (resource # rest) v =
     resourcesLoop lib rgss (Suc k) rest
       (v\<lparr>results := results v @ [validateResource lib (rgss k) v resource]\<rparr>)"

definition validateResources ::
  "golib \<Rightarrow> (nat \<Rightarrow> nat \<Rightarrow> ranging) \<Rightarrow> Validator \<Rightarrow> PlanOutput \<Rightarrow> string + Validator" where
  "validateResources lib rgss v plan =
     (case PlannedValues plan of
        None \<Rightarrow> Inl ''no resources found in plan''
      | Some pv \<Rightarrow>
          (case RootModule pv of
             None \<Rightarrow> Inl ''no resources found in plan''
           | Some root \<Rightarrow> Inr (resourcesLoop lib rgss 0 (collectResources root) v)))"

text \<open>The counting loop of \<^verbatim>\<open>generateSummary\<close>.\<close>

definition count_report :: "ValidationReport \<Rightarrow> Summary \<Rightarrow> Summary" where
  "count_report report summary =
     (let s1 = (if Status report = ''pass''
                  then summary\<lparr>PassedResources := PassedResources summary + 1\<rparr>
                else if Status report = ''fail''
                  then summary\<lparr>FailedResources := FailedResources summary + 1\<rparr>
                else if Status report = ''warning''
                  then summary\<lparr>WarningResources := WarningResources summary + 1\<rparr>
                else if Status report = ''error''
                  then summary\<lparr>ErrorResources := ErrorResources summary + 1\<rparr>
                else summary)
      in (case DriftStatus report of
            Some d \<Rightarrow> if DriftDetected d
                      then s1\<lparr>DriftDetectedCount := DriftDetectedCount s1 + 1\<rparr> else s1
          | None \<Rightarrow> s1))"

definition generateSummary :: "Validator \<Rightarrow> Summary" where
  "generateSummary v =
     fold count_report (results v)
       \<lparr>TotalResources = int (length (results v)), PassedResources = 0, FailedResources = 0,
        WarningResources = 0, ErrorResources = 0, DriftDetectedCount = 0, Reports = results v\<rparr>"

subsection \<open>The run\<close>

text \<open>
  The Terraform client and the adapter talk to the outside world. What each of their
  calls answers during one run is given by a record: \<open>None\<close> or \<open>Inr\<close> for success,
  the error text otherwise.
\<close>

record tools =
  tf_Init :: "string option"
  tf_Validate :: "string option"
  tf_GetProvider :: "string + string"
  ad_Initialize :: "string \<Rightarrow> string option"
  ad_ValidateCredentials :: "string \<Rightarrow> string option"
  ad_DetectDrift :: "string \<Rightarrow> Adapter"
  tf_Plan :: "string option"
  tf_ShowJSON :: "string + PlanOutput"
  tf_Apply :: "string option"
  tf_Destroy :: "string option"

text \<open>The calls that change infrastructure, logged in the order they are made.\<close>

datatype call = Apply | Destroy

text \<open>\<^verbatim>\<open>runEphemeralMode\<close> returns its error, the calls it made and what it wrote to the
  standard error stream.\<close>

definition runEphemeralMode :: "tools \<Rightarrow> Validator \<Rightarrow> string option \<times> call list \<times> string list" where
  "runEphemeralMode w v =
     (let applyErr = tf_Apply w;
          cleanup =
            (if \<not> NoDestroy (config v) then
               (case tf_Destroy w of
                  Some err \<Rightarrow>
                    ([Apply, Destroy],
                     if Verbose (config v)
                     then [''Warning: terraform destroy encountered issues: '' @ err @ [CHR 0x0A]]
                     else [])
                | None \<Rightarrow> ([Apply, Destroy], []))
             else ([Apply], []))
      in (case applyErr of
            Some err \<Rightarrow> (Some (''terraform apply failed: '' @ err), cleanup)
          | None \<Rightarrow> (None, cleanup)))"

definition initializeCloudAdapter :: "tools \<Rightarrow> Validator \<Rightarrow> string \<Rightarrow> string + Validator" where
  "initializeCloudAdapter w v provider =
     (if provider \<noteq> ''aws'' \<and> provider \<noteq> ''azure'' \<and> provider \<noteq> ''gcp''
      then Inl (''unsupported cloud provider: '' @ provider)
      else (case ad_Initialize w provider of
              Some err \<Rightarrow> Inl (''failed to initialize '' @ provider @ '' adapter: '' @ err)
            | None \<Rightarrow>
                (case ad_ValidateCredentials w provider of
                   Some err \<Rightarrow> Inl (''cloud credentials validation failed: '' @ err)
                 | None \<Rightarrow> Inr (v\<lparr>cloudAdapter := Some (ad_DetectDrift w provider)\<rparr>))))"

text \<open>Steps 7 to 9 of \<^verbatim>\<open>Validate\<close>, once the plan is parsed.\<close>

definition validatePlan ::
  "golib \<Rightarrow> (nat \<Rightarrow> nat \<Rightarrow> ranging) \<Rightarrow> tools \<Rightarrow> Validator \<Rightarrow> PlanOutput
     \<Rightarrow> (string + Summary) \<times> call list \<times> string list" where
  "validatePlan lib rgss w v plan =
     (case validateResources lib rgss v plan of
        Inl err \<Rightarrow> (Inl (''resource validation failed: '' @ err), [], [])
      | Inr v' \<Rightarrow>
          (if Mode (config v') = ModeEphemeralSandbox then
             (case runEphemeralMode w v' of
                (Some err, effects) \<Rightarrow> (Inl (''ephemeral mode failed: '' @ err), effects)
              | (None, effects) \<Rightarrow> (Inr (generateSummary v'), effects))
           else (Inr (generateSummary v'), [], [])))"

text \<open>\<^verbatim>\<open>Validate\<close>: the result, the infrastructure-changing calls and the standard error
  output of the run.\<close>

definition Validate ::
  "golib \<Rightarrow> (nat \<Rightarrow> nat \<Rightarrow> ranging) \<Rightarrow> tools \<Rightarrow> Validator
     \<Rightarrow> (string + Summary) \<times> call list \<times> string list" where
  "Validate lib rgss w v =
     (case tf_Init w of
        Some err \<Rightarrow> (Inl (''terraform init failed: '' @ err), [], [])
      | None \<Rightarrow>
     (case tf_Validate w of
        Some err \<Rightarrow> (Inl (''terraform validate failed: '' @ err), [], [])
      | None \<Rightarrow>
     (case (if CloudProvider (config v) = [] then tf_GetProvider w
            else Inr (CloudProvider (config v))) of
        Inl err \<Rightarrow> (Inl (''failed to detect cloud provider: '' @ err), [], [])
      | Inr provider \<Rightarrow>
     (case initializeCloudAdapter w v provider of
        Inl err \<Rightarrow> (Inl (''failed to initialize cloud adapter: '' @ err), [], [])
      | Inr v' \<Rightarrow>
     (case tf_Plan w of
        Some err \<Rightarrow> (Inl (''terraform plan failed: '' @ err), [], [])
      | None \<Rightarrow>
     (case tf_ShowJSON w of
        Inl err \<Rightarrow> (Inl (''failed to parse plan: '' @ err), [], [])
      | Inr plan \<Rightarrow> validatePlan lib rgss w v' plan))))))"

text \<open>
  \<^verbatim>\<open>Validate\<close> changes the validator it is called on: step 4 stores the adapter and
  step 7 appends the reports. This is the validator a call leaves behind, whether it
  returned a summary or an error.
\<close>

definition validator_after ::
  "golib \<Rightarrow> (nat \<Rightarrow> nat \<Rightarrow> ranging) \<Rightarrow> tools \<Rightarrow> Validator \<Rightarrow> Validator" where
  "validator_after lib rgss w v =
     (case tf_Init w of
        Some err \<Rightarrow> v
      | None \<Rightarrow>
     (case tf_Validate w of
        Some err \<Rightarrow> v
      | None \<Rightarrow>
     (case (if CloudProvider (config v) = [] then tf_GetProvider w
            else Inr (CloudProvider (config v))) of
        Inl err \<Rightarrow> v
      | Inr provider \<Rightarrow>
     (case initializeCloudAdapter w v provider of
        Inl err \<Rightarrow> v
      | Inr v' \<Rightarrow>
     (case tf_Plan w of
        Some err \<Rightarrow> v'
      | None \<Rightarrow>
     (case tf_ShowJSON w of
        Inl err \<Rightarrow> v'
      | Inr plan \<Rightarrow>
     (case validateResources lib rgss v' plan of
        Inl err \<Rightarrow> v'
      | Inr v'' \<Rightarrow> v'')))))))"

text \<open>\<^verbatim>\<open>NewValidator\<close>; whether the Terraform client could be created and what loading
  the policy file gave are parameters. A new validator has no adapter and no reports.\<close>

definition NewValidator :: "ValidatorConfig \<Rightarrow> string option \<Rightarrow> string + Policy \<Rightarrow> string + Validator" where
  "NewValidator cfg client engine =
     (if WorkingDir cfg = [] then Inl ''working directory is required''
      else if PolicyPath cfg = [] then Inl ''policy path is required''
      else (case client of
              Some err \<Rightarrow> Inl (''failed to create terraform client: '' @ err)
            | None \<Rightarrow>
                (case engine of
                   Inl err \<Rightarrow> Inl (''failed to load policy: '' @ err)
                 | Inr policy \<Rightarrow>
                     Inr \<lparr>config = cfg, rulesEngine = policy, cloudAdapter = None, results = []\<rparr>)))"

text \<open>
  The status the specification derives from the rule results and the drift status of a
  report.
\<close>

definition drift_detected :: "ResourceStatus option \<Rightarrow> bool" where
  "drift_detected d = (case d of Some s \<Rightarrow> DriftDetected s | None \<Rightarrow> False)"

definition derived_status :: "ValidationResult list \<Rightarrow> ResourceStatus option \<Rightarrow> string" where
  "derived_status rs d =
     (if list_ex (\<lambda>r. \<not> Passed r \<and> Severity r = ''error'') rs then ''fail''
      else if list_ex (\<lambda>r. \<not> Passed r \<and> Severity r = ''warning'') rs \<or> drift_detected d
        then ''warning''
      else ''pass'')"

text \<open>A report whose status is the derived one.\<close>

definition status_derived :: "ValidationReport \<Rightarrow> bool" where
  "status_derived report \<longleftrightarrow>
     Status report = derived_status (RuleResults report) (DriftStatus report)"

section \<open>Notions used to state the properties of the engine\<close>

text \<open>A field through which \<^verbatim>\<open>checkPublicAccessBlocked\<close> finds public access.\<close>

definition is_public :: "(string \<Rightarrow> string) \<Rightarrow> attrs \<Rightarrow> string \<Rightarrow> bool" where
  "is_public ToLower resource field =
     (case map_of resource field of
        Some (VBool b) \<Rightarrow> b
      | Some (VStr strVal) \<Rightarrow> Contains (ToLower strVal) ''public''
      | _ \<Rightarrow> False)"

text \<open>The verdict of one condition on a resource, the keys of \<^verbatim>\<open>publicFields\<close> visited as
  listed and no details collected before.\<close>

definition condition_passes :: "golib \<Rightarrow> string \<Rightarrow> val \<Rightarrow> attrs \<Rightarrow> bool" where
  "condition_passes lib condition expected resource =
     fst (evaluateCondition lib id condition expected resource [])"

text \<open>A checker appends nothing when it passes and one string when it fails.\<close>

definition one_more :: "string list \<Rightarrow> bool \<times> string list \<Rightarrow> bool" where
  "one_more ds r \<longleftrightarrow> (if fst r then snd r = ds else (\<exists>d. snd r = ds @ [d]))"

definition failing :: "golib \<Rightarrow> attrs \<Rightarrow> string \<times> val \<Rightarrow> bool" where
  "failing lib resource ce \<longleftrightarrow> \<not> condition_passes lib (fst ce) (snd ce) resource"

text \<open>A rule with two conditions, both of which an empty resource fails.\<close>

definition two_failing_rule :: ValidationRule where
  "two_failing_rule =
     \<lparr>rule_Name = ''storage-hardening'', rule_Description = [], rule_Severity = ''error'',
      rule_Category = ''security'', rule_Enabled = True, rule_ResourceTypes = [],
      rule_Conditions = [(''encryption.enabled'', VBool True), (''versioning.enabled'', VBool True)],
      rule_Message = ''Storage must be hardened'', rule_Remediation = []\<rparr>"

section \<open>Example inputs\<close>

text \<open>An instance that the provider reports as absent.\<close>

definition absent_instance :: ResourceStatus where
  "absent_instance =
     \<lparr>rs_ResourceID = ''i-0abc'', rs_ResourceType = ''aws_instance'', Exists = False, State = [],
      Tags = [], Properties = [], DriftDetected = False, DriftDetails = []\<rparr>"

text \<open>A plan whose root module holds nothing.\<close>

definition empty_plan :: PlanOutput where
  "empty_plan =
     \<lparr>FormatVersion = ''1.2'', TerraformVersion = ''1.7.0'',
      PlannedValues = Some \<lparr>RootModule = Some (Module [] [] [])\<rparr>\<rparr>"

text \<open>A validator for the ephemeral sandbox, without \<^verbatim>\<open>--verbose\<close> and without
  \<^verbatim>\<open>--no-destroy\<close>.\<close>

definition quiet_sandbox :: Validator where
  "quiet_sandbox =
     \<lparr>config = \<lparr>Mode = ModeEphemeralSandbox, WorkingDir = ''.'', PolicyPath = ''policy.yaml'',
                 CloudProvider = ''aws'', OutputFormat = ''human'', OutputFile = [],
                 NoDestroy = False, Verbose = False\<rparr>,
      rulesEngine = \<lparr>pol_Version = ''1'', pol_Name = ''empty'', pol_Description = [], pol_Rules = []\<rparr>,
      cloudAdapter = None, results = []\<rparr>"

text \<open>A run in which every call succeeds except \<^verbatim>\<open>terraform destroy\<close>.\<close>

definition destroy_fails :: tools where
  "destroy_fails =
     \<lparr>tf_Init = None, tf_Validate = None, tf_GetProvider = Inr ''aws'',
      ad_Initialize = (\<lambda>p. None), ad_ValidateCredentials = (\<lambda>p. None),
      ad_DetectDrift = (\<lambda>p planned t i. Inl ''unsupported resource type''),
      tf_Plan = None, tf_ShowJSON = Inr empty_plan, tf_Apply = None,
      tf_Destroy = Some ''timeout while deleting the resource group''\<rparr>"

text \<open>The runtime visits every map in the order of its list.\<close>

definition keep_order :: "nat \<Rightarrow> nat \<Rightarrow> ranging" where
  "keep_order k i = \<lparr>range_conditions = id, range_fields = id\<rparr>"

text \<open>The rule and the resource of the tagging scenario, and a validator that finds the
  live instance absent.\<close>

definition required_tags_rule :: ValidationRule where
  "required_tags_rule =
     \<lparr>rule_Name = ''required-tags'', rule_Description = [], rule_Severity = ''error'',
      rule_Category = ''compliance'', rule_Enabled = True, rule_ResourceTypes = [''aws_*''],
      rule_Conditions = [(''tags.required'', VList [VStr ''Environment'', VStr ''Owner''])],
      rule_Message = ''Required tags missing'', rule_Remediation = []\<rparr>"

definition prod_instance :: Resource where
  "prod_instance =
     \<lparr>res_Address = ''aws_instance.web'', res_Mode = ''managed'', res_Type = ''aws_instance'',
      res_Name = ''web'', res_ProviderName = ''registry.terraform.io/hashicorp/aws'',
      res_SchemaVersion = 1,
      res_Values = [(''id'', VStr ''i-0abc''), (''tags'', VMap [(''Environment'', VStr ''prod'')])]\<rparr>"

definition live_validator :: Validator where
  "live_validator =
     \<lparr>config = \<lparr>Mode = ModeValidateExisting, WorkingDir = ''.'', PolicyPath = ''policy.yaml'',
                 CloudProvider = ''aws'', OutputFormat = ''human'', OutputFile = [],
                 NoDestroy = False, Verbose = False\<rparr>,
      rulesEngine = \<lparr>pol_Version = ''1'', pol_Name = ''tagging'', pol_Description = [],
                      pol_Rules = [required_tags_rule]\<rparr>,
      cloudAdapter = Some (aws_DetectDrift (\<lambda>t i. Inr absent_instance) id),
      results = []\<rparr>"

text \<open>A report is the validation of a resource under some choice of visiting orders.\<close>

definition report_of :: "golib \<Rightarrow> Validator \<Rightarrow> ValidationReport \<Rightarrow> Resource \<Rightarrow> bool" where
  "report_of lib v report resource \<longleftrightarrow>
     (\<exists>rgs. report = validateResource lib rgs (v\<lparr>results := []\<rparr>) resource)"

text \<open>A plan with one resource in the root module and one in a child module, a run on it
  in which the provider cannot tell the drift, and the summary of that run.\<close>

definition nested_root :: Module where
  "nested_root =
     Module [prod_instance]
       [Module [prod_instance\<lparr>res_Address := ''module.db.aws_instance.web''\<rparr>] [] ''module.db'']
       []"

definition nested_plan :: PlanOutput where
  "nested_plan =
     \<lparr>FormatVersion = ''1.2'', TerraformVersion = ''1.7.0'',
      PlannedValues = Some \<lparr>RootModule = Some nested_root\<rparr>\<rparr>"

definition live_run :: tools where
  "live_run = destroy_fails\<lparr>tf_ShowJSON := Inr nested_plan\<rparr>"

definition fresh_validator :: Validator where
  "fresh_validator =
     \<lparr>config = \<lparr>Mode = ModeValidateExisting, WorkingDir = ''.'', PolicyPath = ''policy.yaml'',
                 CloudProvider = ''aws'', OutputFormat = ''human'', OutputFile = [],
                 NoDestroy = False, Verbose = False\<rparr>,
      rulesEngine = \<lparr>pol_Version = ''1'', pol_Name = ''empty'', pol_Description = [], pol_Rules = []\<rparr>,
      cloudAdapter = None, results = []\<rparr>"

definition nested_summary :: Summary where
  "nested_summary =
     \<lparr>TotalResources = 2, PassedResources = 2, FailedResources = 0, WarningResources = 0,
      ErrorResources = 0, DriftDetectedCount = 0,
      Reports =
        [\<lparr>ResourceAddress = ''aws_instance.web'', ResourceType = ''aws_instance'',
          Provider = ''registry.terraform.io/hashicorp/aws'', Status = ''pass'', RuleResults = [],
          DriftStatus = None, Errors = [''Drift detection failed: unsupported resource type'']\<rparr>,
         \<lparr>ResourceAddress = ''module.db.aws_instance.web'', ResourceType = ''aws_instance'',
          Provider = ''registry.terraform.io/hashicorp/aws'', Status = ''pass'', RuleResults = [],
          DriftStatus = None, Errors = [''Drift detection failed: unsupported resource type'']\<rparr>]\<rparr>"

text \<open>The summary of a second run on the same validator.\<close>

definition doubled_summary :: Summary where
  "doubled_summary =
     nested_summary\<lparr>TotalResources := 4, PassedResources := 4,
                    Reports := Reports nested_summary @ Reports nested_summary\<rparr>"

text \<open>A resource without tags and without any name, policy or subnet attribute.\<close>

definition tagless_instance :: attrs where
  "tagless_instance = [(''instance_type'', VStr ''t3.micro'')]"

text \<open>The condition keys that have a checker of their own, and the attributes each
  condition is about: for the generic property check, the first part of the dotted path.\<close>

definition named_conditions :: "string list" where
  "named_conditions = [''tags.required'', ''encryption.enabled'', ''public_access.blocked'',
     ''versioning.enabled'', ''logging.enabled'', ''backup.enabled'', ''naming.pattern'',
     ''iam.least_privilege'', ''network.private_subnet'']"

definition subject_fields :: "string \<Rightarrow> string list" where
  "subject_fields condition =
     (if condition = ''tags.required'' then [''tags'']
      else if condition = ''encryption.enabled'' then encryptionFields
      else if condition = ''public_access.blocked'' then publicFields
      else if condition = ''versioning.enabled'' then versioningFields
      else if condition = ''logging.enabled'' then loggingFields
      else if condition = ''backup.enabled'' then backupFields
      else if condition = ''naming.pattern'' then nameFields
      else if condition = ''iam.least_privilege'' then policyFields
      else if condition = ''network.private_subnet'' then [''subnet_id'']
      else [hd (split_dots condition)])"

text \<open>None of the given attributes is a key of the resource.\<close>

definition absent :: "attrs \<Rightarrow> string list \<Rightarrow> bool" where
  "absent resource fs \<longleftrightarrow> list_all (\<lambda>field. map_of resource field = None) fs"




text \<open>A policy that asks AWS and Azure resources for the two tags.\<close>

definition tagging_policy :: Policy where
  "tagging_policy =
     \<lparr>pol_Version = ''1'', pol_Name = ''tagging'', pol_Description = [],
      pol_Rules = [required_tags_rule,
                   required_tags_rule\<lparr>rule_Name := ''required-tags-azure'',
                                      rule_ResourceTypes := [''azurerm_*'']\<rparr>]\<rparr>"

text \<open>
  A plan whose modules nest two levels deep, with a sibling module after the nested one; a
  run on it under the tagging policy in which the provider finds no live resource; the
  validator of that run and its summary.
\<close>

definition deep_root :: Module where
  "deep_root =
     Module [prod_instance]
       [Module [prod_instance\<lparr>res_Address := ''module.net.aws_instance.gw'', res_Name := ''gw'',
                  res_Values := [(''id'', VStr ''i-0def''),
                                 (''tags'', VMap [(''Environment'', VStr ''prod''),
                                                  (''Owner'', VStr ''net'')])]\<rparr>]
          [Module [prod_instance\<lparr>res_Address := ''module.net.module.db.aws_instance.db'',
                     res_Name := ''db'',
                     res_Values := [(''tags'', VMap [(''Environment'', VStr ''prod''),
                                                     (''Owner'', VStr ''data'')])]\<rparr>]
             [] ''module.net.module.db'']
          ''module.net'',
        Module [prod_instance\<lparr>res_Address := ''module.app.aws_instance.app'', res_Name := ''app'',
                  res_Values := [(''name'', VStr ''app'')]\<rparr>]
          [] ''module.app'']
       []"

definition deep_run :: tools where
  "deep_run =
     \<lparr>tf_Init = None, tf_Validate = None, tf_GetProvider = Inr ''aws'',
      ad_Initialize = (\<lambda>p. None), ad_ValidateCredentials = (\<lambda>p. None),
      ad_DetectDrift = (\<lambda>p. aws_DetectDrift
         (\<lambda>t i. Inr (absent_instance\<lparr>rs_ResourceID := i, rs_ResourceType := t\<rparr>)) id),
      tf_Plan = None,
      tf_ShowJSON = Inr \<lparr>FormatVersion = ''1.2'', TerraformVersion = ''1.7.0'',
                          PlannedValues = Some \<lparr>RootModule = Some deep_root\<rparr>\<rparr>,
      tf_Apply = None, tf_Destroy = None\<rparr>"

definition deep_validator :: Validator where
  "deep_validator =
     \<lparr>config = \<lparr>Mode = ModeValidateExisting, WorkingDir = ''.'', PolicyPath = ''policy.yaml'',
                 CloudProvider = [], OutputFormat = ''human'', OutputFile = [],
                 NoDestroy = False, Verbose = False\<rparr>,
      rulesEngine = tagging_policy, cloudAdapter = None, results = []\<rparr>"

definition deep_summary :: Summary where
  "deep_summary =
     \<lparr>TotalResources = 4, PassedResources = 1, FailedResources = 2, WarningResources = 1,
      ErrorResources = 0, DriftDetectedCount = 3,
      Reports =
        [\<lparr>ResourceAddress = ''aws_instance.web'', ResourceType = ''aws_instance'',
          Provider = ''registry.terraform.io/hashicorp/aws'', Status = ''fail'',
          RuleResults =
            [\<lparr>ResourceID = ''aws_instance.web'', RuleName = ''required-tags'', Passed = False,
              Message = ''Required tags missing'', Severity = ''error'', Remediation = [],
              Details = [''Missing required tags: Owner'']\<rparr>],
          DriftStatus =
            Some \<lparr>rs_ResourceID = ''i-0abc'', rs_ResourceType = ''aws_instance'', Exists = False,
                  State = [], Tags = [], Properties = [], DriftDetected = True,
                  DriftDetails = [''Resource does not exist in AWS'']\<rparr>,
          Errors = []\<rparr>,
         \<lparr>ResourceAddress = ''module.net.aws_instance.gw'', ResourceType = ''aws_instance'',
          Provider = ''registry.terraform.io/hashicorp/aws'', Status = ''warning'',
          RuleResults =
            [\<lparr>ResourceID = ''module.net.aws_instance.gw'', RuleName = ''required-tags'',
              Passed = True, Message = ''Required tags missing'', Severity = ''error'',
              Remediation = [], Details = []\<rparr>],
          DriftStatus =
            Some \<lparr>rs_ResourceID = ''i-0def'', rs_ResourceType = ''aws_instance'', Exists = False,
                  State = [], Tags = [], Properties = [], DriftDetected = True,
                  DriftDetails = [''Resource does not exist in AWS'']\<rparr>,
          Errors = []\<rparr>,
         \<lparr>ResourceAddress = ''module.net.module.db.aws_instance.db'',
          ResourceType = ''aws_instance'',
          Provider = ''registry.terraform.io/hashicorp/aws'', Status = ''pass'',
          RuleResults =
            [\<lparr>ResourceID = ''module.net.module.db.aws_instance.db'', RuleName = ''required-tags'',
              Passed = True, Message = ''Required tags missing'', Severity = ''error'',
              Remediation = [], Details = []\<rparr>],
          DriftStatus = None, Errors = []\<rparr>,
         \<lparr>ResourceAddress = ''module.app.aws_instance.app'', ResourceType = ''aws_instance'',
          Provider = ''registry.terraform.io/hashicorp/aws'', Status = ''fail'',
          RuleResults =
            [\<lparr>ResourceID = ''module.app.aws_instance.app'', RuleName = ''required-tags'',
              Passed = False, Message = ''Required tags missing'', Severity = ''error'',
              Remediation = [], Details = [''No tags found on resource'']\<rparr>],
          DriftStatus =
            Some \<lparr>rs_ResourceID = ''app'', rs_ResourceType = ''aws_instance'', Exists = False,
                  State = [], Tags = [], Properties = [], DriftDetected = True,
                  DriftDetails = [''Resource does not exist in AWS'']\<rparr>,
          Errors = []\<rparr>]\<rparr>"

section \<open>Checkers that enforce nothing unless the expected value is true\<close>

lemma as_bool_not_true:
  "expected \<noteq> VBool True \<Longrightarrow> \<not> snd (as_bool expected) \<or> \<not> fst (as_bool expected)"
  by (cases expected) auto

text \<open>
  Claim C10. For the conditions \<^verbatim>\<open>encryption.enabled\<close>, \<^verbatim>\<open>public_access.blocked\<close>,
  \<^verbatim>\<open>versioning.enabled\<close>, \<^verbatim>\<open>logging.enabled\<close>, \<^verbatim>\<open>backup.enabled\<close> and
  \<^verbatim>\<open>network.private_subnet\<close>: whenever the expected value of the policy is anything but
  the boolean true, the condition passes for every resource and appends no detail.
\<close>

theorem non_true_expected_passes:
  assumes "expected \<noteq> VBool True"
      and "condition \<in> {''encryption.enabled'', ''public_access.blocked'', ''versioning.enabled'',
                         ''logging.enabled'', ''backup.enabled'', ''network.private_subnet''}"
  shows "evaluateCondition lib visit condition expected resource ds = (True, ds)"
  using assms(2) as_bool_not_true [OF assms(1)]
  by (auto simp: evaluateCondition_def checkEncryptionEnabled_def checkPublicAccessBlocked_def
        checkVersioningEnabled_def checkLoggingEnabled_def checkBackupEnabled_def
        checkPrivateSubnet_def)

text \<open>The string \<^verbatim>\<open>"true"\<close> is such a value: a resource with encryption off passes.\<close>

theorem non_true_expected_passes_witness:
  "VStr ''true'' \<noteq> VBool True \<and>
   ''encryption.enabled'' \<in> {''encryption.enabled'', ''public_access.blocked'',
       ''versioning.enabled'', ''logging.enabled'', ''backup.enabled'', ''network.private_subnet''} \<and>
   evaluateCondition fragment_lib id ''encryption.enabled'' (VStr ''true'')
       [(''encrypted'', VBool False)] [] = (True, [])"
  using non_true_expected_passes [of "VStr ''true''" "''encryption.enabled''" fragment_lib id
          "[(''encrypted'', VBool False)]" "[]"]
  by simp

section \<open>What a checker does to the details\<close>

lemma publicLoop_verdict:
  "fst (publicLoop ToLower fs resource ds) = (\<not> list_ex (is_public ToLower resource) fs)"
  by (induction fs) (auto simp: is_public_def split: option.splits val.splits)

lemma publicLoop_details: "one_more ds (publicLoop ToLower fs resource ds)"
  by (induction fs) (auto simp: one_more_def split: option.splits val.splits)

lemma publicLoop_prefix:
  "snd (publicLoop ToLower fs resource ds) = ds @ snd (publicLoop ToLower fs resource [])"
  by (induction fs) (auto split: option.splits val.splits)

lemma namingLoop_details: "one_more ds (namingLoop re pattern fs resource ds)"
  by (induction fs) (auto simp: one_more_def split: option.splits val.splits sum.splits)

lemma namingLoop_prefix:
  "namingLoop re pattern fs resource ds =
     (fst (namingLoop re pattern fs resource []), ds @ snd (namingLoop re pattern fs resource []))"
  by (induction fs) (auto split: option.splits val.splits sum.splits)

lemma navigate_details: "one_more ds (navigate path expected parts current ds)"
  by (induction path expected parts current ds rule: navigate.induct)
     (auto simp: one_more_def split: option.splits val.splits)

lemma navigate_prefix:
  "navigate path expected parts current ds =
     (fst (navigate path expected parts current []), ds @ snd (navigate path expected parts current []))"
  by (induction path expected parts current ds rule: navigate.induct)
     (auto split: option.splits val.splits)

lemma tags_frame:
  "checkRequiredTags expected resource ds =
     (fst (checkRequiredTags expected resource []), ds @ snd (checkRequiredTags expected resource []))"
  by (simp add: checkRequiredTags_def Let_def split: val.splits option.splits)

lemma public_frame:
  "checkPublicAccessBlocked ToLower visit expected resource ds =
     (fst (checkPublicAccessBlocked ToLower visit expected resource []),
      ds @ snd (checkPublicAccessBlocked ToLower visit expected resource []))"
  using publicLoop_prefix [of ToLower "visit publicFields" resource ds]
        publicLoop_verdict [of ToLower "visit publicFields" resource ds]
        publicLoop_verdict [of ToLower "visit publicFields" resource "[]"]
  by (simp add: checkPublicAccessBlocked_def prod_eq_iff)

lemma naming_frame:
  "checkNamingPattern re expected resource ds =
     (fst (checkNamingPattern re expected resource []),
      ds @ snd (checkNamingPattern re expected resource []))"
proof (cases expected)
  case (VStr pattern)
  then show ?thesis
    using namingLoop_prefix [of re pattern nameFields resource ds]
    by (simp add: checkNamingPattern_def)
qed (simp_all add: checkNamingPattern_def)

lemma subnet_frame:
  "checkPrivateSubnet expected resource ds =
     (fst (checkPrivateSubnet expected resource []), ds @ snd (checkPrivateSubnet expected resource []))"
  by (simp add: checkPrivateSubnet_def split: val.splits option.splits)

lemma property_frame:
  "checkProperty path expected resource ds =
     (fst (checkProperty path expected resource []), ds @ snd (checkProperty path expected resource []))"
  using navigate_prefix [of path expected "split_dots path" resource ds]
  by (simp add: checkProperty_def)

lemma evaluateCondition_frame:
  "evaluateCondition lib visit condition expected resource ds =
     (fst (evaluateCondition lib visit condition expected resource []),
      ds @ snd (evaluateCondition lib visit condition expected resource []))"
  using tags_frame [of expected resource ds]
        public_frame [of "strings_ToLower lib" visit expected resource ds]
        naming_frame [of "regexp_MatchString lib" expected resource ds]
        subnet_frame [of expected resource ds]
        property_frame [of condition expected resource ds]
  by (simp add: evaluateCondition_def checkEncryptionEnabled_def checkVersioningEnabled_def
        checkLoggingEnabled_def checkBackupEnabled_def checkLeastPrivilege_def)

lemma tags_details: "one_more ds (checkRequiredTags expected resource ds)"
  by (simp add: one_more_def checkRequiredTags_def Let_def split: val.splits option.splits)

lemma naming_details: "one_more ds (checkNamingPattern re expected resource ds)"
proof (cases expected)
  case (VStr pattern)
  then show ?thesis
    using namingLoop_details [of ds re pattern nameFields resource]
    by (simp add: checkNamingPattern_def)
qed (simp_all add: checkNamingPattern_def one_more_def)

lemma subnet_details: "one_more ds (checkPrivateSubnet expected resource ds)"
  by (simp add: one_more_def checkPrivateSubnet_def split: val.splits option.splits)

lemma evaluateCondition_details:
  "one_more ds (evaluateCondition lib visit condition expected resource ds)"
  using tags_details [of ds expected resource]
        naming_details [of ds "regexp_MatchString lib" expected resource]
        subnet_details [of ds expected resource]
        publicLoop_details [of ds "strings_ToLower lib" "visit publicFields" resource]
        navigate_details [of ds condition expected "split_dots condition" resource]
  by (simp add: evaluateCondition_def checkEncryptionEnabled_def checkVersioningEnabled_def
        checkLoggingEnabled_def checkBackupEnabled_def checkLeastPrivilege_def
        checkPublicAccessBlocked_def checkProperty_def one_more_def)

lemma evaluateCondition_prefix:
  "snd (evaluateCondition lib visit condition expected resource ds) =
     ds @ snd (evaluateCondition lib visit condition expected resource [])"
  using evaluateCondition_frame [of lib visit condition expected resource ds] by simp

lemma evaluateCondition_verdict:
  assumes "set (visit publicFields) = set publicFields"
  shows "fst (evaluateCondition lib visit condition expected resource ds) =
           condition_passes lib condition expected resource"
proof -
  have "fst (evaluateCondition lib visit condition expected resource ds) =
          fst (evaluateCondition lib visit condition expected resource [])"
    using evaluateCondition_frame [of lib visit condition expected resource ds] by simp
  also have "\<dots> = fst (evaluateCondition lib id condition expected resource [])"
    using assms
    by (simp add: evaluateCondition_def checkPublicAccessBlocked_def publicLoop_verdict list_ex_iff)
  finally show ?thesis by (simp add: condition_passes_def)
qed

lemma conditionsLoop_result:
  assumes "set (visit publicFields) = set publicFields"
  shows "conditionsLoop lib visit cs resource ds =
           (\<not> list_ex (failing lib resource) cs,
            ds @ (case find (failing lib resource) cs of
                    None \<Rightarrow> []
                  | Some ce \<Rightarrow> snd (evaluateCondition lib visit (fst ce) (snd ce) resource [])))"
proof (induction cs arbitrary: ds)
  case Nil
  show ?case by simp
next
  case (Cons ce rest)
  obtain ok ds' where ev: "evaluateCondition lib visit (fst ce) (snd ce) resource ds = (ok, ds')"
    by (cases "evaluateCondition lib visit (fst ce) (snd ce) resource ds")
  have ok: "ok = (\<not> failing lib resource ce)"
    using evaluateCondition_verdict [of visit lib "fst ce" "snd ce" resource ds] assms ev
    by (simp add: failing_def)
  have pre: "ds' = ds @ snd (evaluateCondition lib visit (fst ce) (snd ce) resource [])"
    using evaluateCondition_prefix [of lib visit "fst ce" "snd ce" resource ds] ev by simp
  show ?case
  proof (cases ok)
    case True
    have "ds' = ds"
      using evaluateCondition_details [of ds lib visit "fst ce" "snd ce" resource] ev True
      by (simp add: one_more_def)
    with True ok ev Cons.IH [of ds] show ?thesis by simp
  next
    case False
    with ok ev pre show ?thesis by simp
  qed
qed


lemma conditionsLoop_visit:
  assumes "visit publicFields = visit' publicFields"
  shows "conditionsLoop lib visit cs resource ds = conditionsLoop lib visit' cs resource ds"
proof (induction cs arbitrary: ds)
  case Nil
  show ?case by simp
next
  case (Cons ce rest)
  have "evaluateCondition lib visit (fst ce) (snd ce) resource ds =
          evaluateCondition lib visit' (fst ce) (snd ce) resource ds"
    using assms by (simp add: evaluateCondition_def checkPublicAccessBlocked_def)
  with Cons.IH show ?case by (simp split: prod.splits)
qed

lemma admissible_sets:
  assumes "admissible rg"
  shows "set (range_conditions rg m) = set m" and "set (range_fields rg ks) = set ks"
  using assms by (auto simp: admissible_def dest: mset_eq_setD)

lemma EvaluateRule_Passed:
  assumes "admissible rg"
  shows "Passed (EvaluateRule lib rg rule resource) =
           (\<not> list_ex (failing lib resource) (rule_Conditions rule))"
  using conditionsLoop_result [of "range_fields rg" lib
          "range_conditions rg (rule_Conditions rule)" resource "[]"]
        admissible_sets [OF assms]
  by (simp add: EvaluateRule_def list_ex_iff)

lemma EvaluateRule_Details:
  assumes "admissible rg"
  shows "Details (EvaluateRule lib rg rule resource) =
           (case find (failing lib resource) (range_conditions rg (rule_Conditions rule)) of
              None \<Rightarrow> []
            | Some ce \<Rightarrow> snd (evaluateCondition lib (range_fields rg) (fst ce) (snd ce) resource []))"
  using conditionsLoop_result [of "range_fields rg" lib
          "range_conditions rg (rule_Conditions rule)" resource "[]"]
        admissible_sets [OF assms]
  by (simp add: EvaluateRule_def)

lemma conditionsLoop_details: "one_more ds (conditionsLoop lib visit cs resource ds)"
proof (induction cs arbitrary: ds)
  case Nil
  show ?case by (simp add: one_more_def)
next
  case (Cons ce rest)
  show ?case
    using evaluateCondition_details [of ds lib visit "fst ce" "snd ce" resource] Cons.IH [of ds]
    by (auto simp: one_more_def split: prod.splits)
qed

lemma EvaluateRule_one_detail:
  "if Passed (EvaluateRule lib rg rule resource)
   then Details (EvaluateRule lib rg rule resource) = []
   else (\<exists>d. Details (EvaluateRule lib rg rule resource) = [d])"
  using conditionsLoop_details [of "[]" lib "range_fields rg"
          "range_conditions rg (rule_Conditions rule)" resource]
  by (auto simp: EvaluateRule_def one_more_def split: prod.splits)


section \<open>Evaluating one rule twice\<close>

text \<open>
  Claim C4, as amended. Two evaluations of the same rule on the same attributes, each
  under an admissible choice of visiting orders, agree on the \<^verbatim>\<open>Passed\<close> flag, which is true
  exactly when every condition of the rule passes, and on every field but \<^verbatim>\<open>Details\<close>. The
  conditions are evaluated in the order the runtime visits the \<^verbatim>\<open>Conditions\<close> map, stopping
  at the first one that fails: \<^verbatim>\<open>Details\<close> is empty when the rule passes and holds the one
  detail of that first failing condition otherwise. When both evaluations visit in the same
  order the two results are identical.
\<close>

theorem EvaluateRule_up_to_visiting_order:
  assumes "admissible rg" and "admissible rg'"
  shows "Passed (EvaluateRule lib rg rule resource) = Passed (EvaluateRule lib rg' rule resource) \<and>
         (Passed (EvaluateRule lib rg rule resource) \<longleftrightarrow>
            list_all (\<lambda>ce. condition_passes lib (fst ce) (snd ce) resource) (rule_Conditions rule)) \<and>
         Details (EvaluateRule lib rg rule resource) =
           (case find (failing lib resource) (range_conditions rg (rule_Conditions rule)) of
              None \<Rightarrow> []
            | Some ce \<Rightarrow> snd (evaluateCondition lib (range_fields rg) (fst ce) (snd ce) resource [])) \<and>
         (if Passed (EvaluateRule lib rg rule resource)
          then Details (EvaluateRule lib rg rule resource) = []
          else (\<exists>d. Details (EvaluateRule lib rg rule resource) = [d])) \<and>
         (EvaluateRule lib rg' rule resource =
            (EvaluateRule lib rg rule resource)
              \<lparr>Details := Details (EvaluateRule lib rg' rule resource)\<rparr>) \<and>
         (range_conditions rg (rule_Conditions rule) = range_conditions rg' (rule_Conditions rule) \<and>
          range_fields rg publicFields = range_fields rg' publicFields \<longrightarrow>
            EvaluateRule lib rg rule resource = EvaluateRule lib rg' rule resource)"
proof (intro conjI impI)
  show p: "Passed (EvaluateRule lib rg rule resource) = Passed (EvaluateRule lib rg' rule resource)"
    by (simp add: EvaluateRule_Passed assms)
  show "Passed (EvaluateRule lib rg rule resource) \<longleftrightarrow>
          list_all (\<lambda>ce. condition_passes lib (fst ce) (snd ce) resource) (rule_Conditions rule)"
    by (simp add: EvaluateRule_Passed assms list_ex_iff list_all_iff failing_def)
  show "Details (EvaluateRule lib rg rule resource) =
           (case find (failing lib resource) (range_conditions rg (rule_Conditions rule)) of
              None \<Rightarrow> []
            | Some ce \<Rightarrow> snd (evaluateCondition lib (range_fields rg) (fst ce) (snd ce) resource []))"
    by (rule EvaluateRule_Details [OF assms(1)])
  show "if Passed (EvaluateRule lib rg rule resource)
        then Details (EvaluateRule lib rg rule resource) = []
        else (\<exists>d. Details (EvaluateRule lib rg rule resource) = [d])"
    by (rule EvaluateRule_one_detail)
  show "EvaluateRule lib rg' rule resource =
          (EvaluateRule lib rg rule resource)\<lparr>Details := Details (EvaluateRule lib rg' rule resource)\<rparr>"
    using p by (simp add: EvaluateRule_def split: prod.splits)
next
  assume "range_conditions rg (rule_Conditions rule) = range_conditions rg' (rule_Conditions rule) \<and>
          range_fields rg publicFields = range_fields rg' publicFields"
  then show "EvaluateRule lib rg rule resource = EvaluateRule lib rg' rule resource"
    using conditionsLoop_visit [of "range_fields rg" "range_fields rg'" lib
            "range_conditions rg' (rule_Conditions rule)" resource "[]"]
    by (simp add: EvaluateRule_def)
qed

lemma admissible_id: "admissible \<lparr>range_conditions = id, range_fields = id\<rparr>"
  by (simp add: admissible_def)

lemma admissible_rev: "admissible \<lparr>range_conditions = rev, range_fields = id\<rparr>"
  by (simp add: admissible_def)

text \<open>Visiting the two conditions of the example rule forwards and backwards.\<close>

theorem EvaluateRule_up_to_visiting_order_witness:
  "admissible \<lparr>range_conditions = id, range_fields = id\<rparr> \<and>
   admissible \<lparr>range_conditions = rev, range_fields = id\<rparr> \<and>
   Passed (EvaluateRule fragment_lib \<lparr>range_conditions = id, range_fields = id\<rparr>
             two_failing_rule []) =
   Passed (EvaluateRule fragment_lib \<lparr>range_conditions = rev, range_fields = id\<rparr>
             two_failing_rule [])"
  using EvaluateRule_up_to_visiting_order [OF admissible_id admissible_rev,
          of fragment_lib two_failing_rule "[]"]
        admissible_id admissible_rev
  by blast

text \<open>
  The claim as stated fails: the same rule and the same (empty) attributes give two
  different \<^verbatim>\<open>Details\<close>, depending on which of the two conditions the runtime visits first.
\<close>

theorem EvaluateRule_deterministic_counterexample:
  "admissible \<lparr>range_conditions = id, range_fields = id\<rparr> \<and>
   admissible \<lparr>range_conditions = rev, range_fields = id\<rparr> \<and>
   Details (EvaluateRule fragment_lib \<lparr>range_conditions = id, range_fields = id\<rparr>
              two_failing_rule []) = [''Encryption is not enabled''] \<and>
   Details (EvaluateRule fragment_lib \<lparr>range_conditions = rev, range_fields = id\<rparr>
              two_failing_rule []) = [''Versioning is not enabled'']"
  by (simp add: admissible_id admissible_rev EvaluateRule_def two_failing_rule_def
        evaluateCondition_def checkEncryptionEnabled_def checkVersioningEnabled_def
        encryptionFields_def versioningFields_def true_or_nonempty_def versioning_on_def)

section \<open>The ephemeral sandbox\<close>

text \<open>
  Claim C1. In ephemeral-sandbox mode with the no-destroy override unset, destroy is
  attempted after apply whatever apply answered; when apply failed, the error returned is
  the apply failure, whatever destroy answered, and it is this error that the run returns.
\<close>

theorem ephemeral_destroy_always_attempted:
  assumes "\<not> NoDestroy (config v)"
  shows "fst (snd (runEphemeralMode w v)) = [Apply, Destroy] \<and>
         (\<forall>e. tf_Apply w = Some e \<longrightarrow>
              fst (runEphemeralMode w v) = Some (''terraform apply failed: '' @ e)) \<and>
         (tf_Apply w = None \<longrightarrow> fst (runEphemeralMode w v) = None) \<and>
         (\<forall>d. fst (runEphemeralMode (w\<lparr>tf_Destroy := d\<rparr>) v) = fst (runEphemeralMode w v)) \<and>
         (\<forall>e v0 plan.
            validateResources lib rgss v0 plan = Inr v \<and> Mode (config v) = ModeEphemeralSandbox \<and>
            tf_Apply w = Some e \<longrightarrow>
              fst (validatePlan lib rgss w v0 plan)
                = Inl (''ephemeral mode failed: terraform apply failed: '' @ e) \<and>
              fst (snd (validatePlan lib rgss w v0 plan)) = [Apply, Destroy])"
  using assms
  by (auto simp: runEphemeralMode_def validatePlan_def Let_def split: option.splits)

text \<open>Apply fails on a quota and destroy fails as well.\<close>

theorem ephemeral_destroy_always_attempted_witness:
  "\<not> NoDestroy (config quiet_sandbox) \<and>
   fst (snd (runEphemeralMode (destroy_fails\<lparr>tf_Apply := Some ''quota exceeded''\<rparr>) quiet_sandbox))
     = [Apply, Destroy] \<and>
   fst (runEphemeralMode (destroy_fails\<lparr>tf_Apply := Some ''quota exceeded''\<rparr>) quiet_sandbox)
     = Some ''terraform apply failed: quota exceeded''"
  using ephemeral_destroy_always_attempted
          [of quiet_sandbox "destroy_fails\<lparr>tf_Apply := Some ''quota exceeded''\<rparr>"]
  by (simp add: quiet_sandbox_def destroy_fails_def)

lemma validatePlan_fst:
  "fst (validatePlan lib rgss w v plan) =
     (case validateResources lib rgss v plan of
        Inl err \<Rightarrow> Inl (''resource validation failed: '' @ err)
      | Inr v' \<Rightarrow>
          (if Mode (config v') = ModeEphemeralSandbox then
             (case tf_Apply w of
                Some e \<Rightarrow> Inl (''ephemeral mode failed: terraform apply failed: '' @ e)
              | None \<Rightarrow> Inr (generateSummary v'))
           else Inr (generateSummary v')))"
  by (simp add: validatePlan_def runEphemeralMode_def Let_def split: sum.splits option.splits)

lemma validatePlan_destroy:
  "fst (validatePlan lib rgss (w\<lparr>tf_Destroy := d\<rparr>) v plan) = fst (validatePlan lib rgss w v plan)"
  by (simp add: validatePlan_fst split: sum.splits)

lemma initializeCloudAdapter_destroy:
  "initializeCloudAdapter (w\<lparr>tf_Destroy := d\<rparr>) v p = initializeCloudAdapter w v p"
  by (auto simp: initializeCloudAdapter_def split: option.splits)

text \<open>
  Claim C2, as amended. What \<^verbatim>\<open>Validate\<close> returns, summary or error, does not depend on
  the answer of destroy. When apply succeeded and destroy failed, \<^verbatim>\<open>runEphemeralMode\<close>
  returns no error; the failure is written to the standard error stream as a warning, and
  only when the validator is verbose.
\<close>

theorem destroy_failure_only_warned:
  "fst (Validate lib rgss (w\<lparr>tf_Destroy := d\<rparr>) v) = fst (Validate lib rgss w v) \<and>
   (tf_Apply w = None \<and> tf_Destroy w = Some err \<and> \<not> NoDestroy (config v) \<longrightarrow>
      runEphemeralMode w v =
        (None, [Apply, Destroy],
         if Verbose (config v)
         then [''Warning: terraform destroy encountered issues: '' @ err @ [CHR 0x0A]] else []))"
  by (simp add: Validate_def validatePlan_destroy initializeCloudAdapter_destroy runEphemeralMode_def
        split: option.splits sum.splits)

text \<open>The quiet sandbox: destroy fails and nothing is written.\<close>

theorem destroy_failure_only_warned_witness:
  "tf_Apply destroy_fails = None \<and>
   tf_Destroy destroy_fails = Some ''timeout while deleting the resource group'' \<and>
   \<not> NoDestroy (config quiet_sandbox) \<and>
   runEphemeralMode destroy_fails quiet_sandbox = (None, [Apply, Destroy], [])"
  using destroy_failure_only_warned [where w = destroy_fails and v = quiet_sandbox
          and err = "''timeout while deleting the resource group''"]
  by (simp add: destroy_fails_def quiet_sandbox_def)

text \<open>
  The claim as stated fails: apply succeeds, destroy fails, and the run returns a summary
  without error, writes nothing, and returns exactly what it returns when destroy succeeds.
\<close>

theorem destroy_failure_surfaced_counterexample:
  "tf_Apply destroy_fails = None \<and>
   tf_Destroy destroy_fails = Some ''timeout while deleting the resource group'' \<and>
   Validate fragment_lib keep_order destroy_fails quiet_sandbox =
     (Inr \<lparr>TotalResources = 0, PassedResources = 0, FailedResources = 0, WarningResources = 0,
           ErrorResources = 0, DriftDetectedCount = 0, Reports = []\<rparr>, [Apply, Destroy], []) \<and>
   Validate fragment_lib keep_order (destroy_fails\<lparr>tf_Destroy := None\<rparr>) quiet_sandbox =
     Validate fragment_lib keep_order destroy_fails quiet_sandbox"
  by (simp add: destroy_fails_def quiet_sandbox_def Validate_def initializeCloudAdapter_def
        validatePlan_def validateResources_def empty_plan_def runEphemeralMode_def
        generateSummary_def ModeEphemeralSandbox_def)


section \<open>Drift of a resource that does not exist\<close>

text \<open>
  Claim C8. When \<^verbatim>\<open>GetResourceStatus\<close> reports, without error, that the live resource does
  not exist, \<^verbatim>\<open>DetectDrift\<close> of each adapter returns that status with \<^verbatim>\<open>Exists\<close> false,
  \<^verbatim>\<open>DriftDetected\<close> true and exactly one drift detail, which notes the absence; the planned
  attributes are not looked at, the result being the same for all of them.
\<close>

theorem absent_resource_drift:
  assumes "GetResourceStatus resourceType resourceID = Inr actual" and "\<not> Exists actual"
  shows "aws_DetectDrift GetResourceStatus visit plannedState resourceType resourceID =
           Inr (actual\<lparr>DriftDetected := True, DriftDetails := [''Resource does not exist in AWS'']\<rparr>) \<and>
         azure_DetectDrift GetResourceStatus visit plannedState resourceType resourceID =
           Inr (actual\<lparr>DriftDetected := True, DriftDetails := [''Resource does not exist in Azure'']\<rparr>) \<and>
         gcp_DetectDrift GetResourceStatus visit plannedState resourceType resourceID =
           Inr (actual\<lparr>DriftDetected := True, DriftDetails := [''Resource does not exist in GCP'']\<rparr>) \<and>
         (\<forall>DetectDrift \<in> {aws_DetectDrift, azure_DetectDrift, gcp_DetectDrift}.
            \<exists>st. DetectDrift GetResourceStatus visit plannedState resourceType resourceID = Inr st \<and>
                 \<not> Exists st \<and> DriftDetected st \<and> length (DriftDetails st) = 1 \<and>
                 (\<forall>visit' plannedState'.
                    DetectDrift GetResourceStatus visit' plannedState' resourceType resourceID = Inr st))"
  using assms
  by (auto simp: aws_DetectDrift_def azure_DetectDrift_def gcp_DetectDrift_def detectDriftWith_def)

text \<open>An absent EC2 instance with a planned tag.\<close>

theorem absent_resource_drift_witness:
  "(\<lambda>t i. Inr absent_instance :: string + ResourceStatus) ''aws_instance'' ''i-0abc'' = Inr absent_instance \<and>
   \<not> Exists absent_instance \<and>
   aws_DetectDrift (\<lambda>t i. Inr absent_instance) id [(''tags'', VMap [(''Owner'', VStr ''ops'')])]
       ''aws_instance'' ''i-0abc'' =
     Inr (absent_instance\<lparr>DriftDetected := True, DriftDetails := [''Resource does not exist in AWS'']\<rparr>)"
  using absent_resource_drift [of "\<lambda>t i. Inr absent_instance" "''aws_instance''" "''i-0abc''"
          absent_instance id "[(''tags'', VMap [(''Owner'', VStr ''ops'')])]"]
  by (simp add: absent_instance_def)

section \<open>The status of a report\<close>

lemma foldl_escalate:
  "foldl escalate s rs =
     (if list_ex (\<lambda>r. \<not> Passed r \<and> Severity r = ''error'') rs then ''fail''
      else if list_ex (\<lambda>r. \<not> Passed r \<and> Severity r = ''warning'') rs \<and> s \<noteq> ''fail''
        then ''warning''
      else s)"
proof (induction rs arbitrary: s)
  case Nil
  show ?case by simp
next
  case (Cons r rs)
  show ?case unfolding foldl_Cons Cons.IH by (simp add: escalate_def)
qed

lemma foldl_escalate_pass: "foldl escalate ''pass'' rs = derived_status rs None"
  by (simp add: foldl_escalate derived_status_def drift_detected_def)

lemma evaluateLoop_fields:
  "DriftStatus (evaluateLoop lib rgs i rules resource report) = DriftStatus report \<and>
   Errors (evaluateLoop lib rgs i rules resource report) = Errors report \<and>
   ResourceAddress (evaluateLoop lib rgs i rules resource report) = ResourceAddress report"
  by (induction rules arbitrary: i report) (simp_all add: Let_def)

lemma evaluateLoop_status:
  assumes "Status report = foldl escalate ''pass'' (RuleResults report)"
  shows "Status (evaluateLoop lib rgs i rules resource report) =
           foldl escalate ''pass'' (RuleResults (evaluateLoop lib rgs i rules resource report))"
  using assms
proof (induction rules arbitrary: i report)
  case Nil
  then show ?case by simp
next
  case (Cons rule rules)
  show ?case
    unfolding evaluateLoop.simps Let_def
    by (rule Cons.IH) (simp add: Cons.prems)
qed

lemma derived_status_drift:
  "derived_status rs (Some d) =
     (if DriftDetected d \<and> derived_status rs None = ''pass'' then ''warning''
      else derived_status rs None)"
  by (simp add: derived_status_def drift_detected_def)

lemma validateResource_status:
  "Status (validateResource lib rgs v resource) =
     derived_status (RuleResults (validateResource lib rgs v resource))
                    (DriftStatus (validateResource lib rgs v resource))"
proof -
  define report0 where "report0 =
     \<lparr>ResourceAddress = res_Address resource, ResourceType = res_Type resource,
      Provider = res_ProviderName resource, Status = ''pass'', RuleResults = [],
      DriftStatus = None, Errors = []\<rparr>"
  define report where "report =
     evaluateLoop lib rgs 0 (GetRulesForResource (regexp_MatchString lib) (rulesEngine v) (res_Type resource)) resource report0"
  have st: "Status report = derived_status (RuleResults report) None"
    unfolding report_def
    using evaluateLoop_status [of report0 lib rgs 0 _ resource]
    by (simp add: report0_def foldl_escalate_pass)
  have dr: "DriftStatus report = None"
    unfolding report_def using evaluateLoop_fields [of lib rgs 0 _ resource report0]
    by (simp add: report0_def)
  have "validateResource lib rgs v resource =
     (if Mode (config v) = ModeValidateExisting then
           (case cloudAdapter v of
              None \<Rightarrow> report
            | Some DetectDrift \<Rightarrow>
                (let resourceID = extractResourceID resource
                 in if resourceID \<noteq> [] then
                      (case DetectDrift (res_Values resource) (res_Type resource) resourceID of
                         Inl err \<Rightarrow>
                           report\<lparr>Errors := Errors report @ [''Drift detection failed: '' @ err]\<rparr>
                       | Inr driftStatus \<Rightarrow>
                           (let report1 = report\<lparr>DriftStatus := Some driftStatus\<rparr>
                            in if DriftDetected driftStatus then
                                 (if Status report1 = ''pass''
                                  then report1\<lparr>Status := ''warning''\<rparr> else report1)
                               else report1))
                    else report))
         else report)"
    unfolding validateResource_def report_def report0_def Let_def by (rule refl)
  then show ?thesis
    using st dr
    by (auto simp: Let_def derived_status_drift split: option.splits sum.splits)
qed


text \<open>
  Claim C3. The status of a report is a function of its rule results and its drift status
  that does not depend on their order: it is \<^verbatim>\<open>fail\<close> exactly when some failed result has
  severity \<^verbatim>\<open>error\<close>; otherwise \<^verbatim>\<open>warning\<close> when some failed result has severity
  \<^verbatim>\<open>warning\<close> or drift was detected; otherwise \<^verbatim>\<open>pass\<close>. The escalation loop of the code
  gives the same status on every permutation of the results.
\<close>

theorem status_is_derived:
  assumes "report = validateResource lib rgs v resource"
  shows "Status report = derived_status (RuleResults report) (DriftStatus report) \<and>
         (\<forall>rs'. mset rs' = mset (RuleResults report) \<longrightarrow>
                derived_status rs' (DriftStatus report) = Status report) \<and>
         (Status report = ''fail'' \<longleftrightarrow>
            (\<exists>r \<in> set (RuleResults report). \<not> Passed r \<and> Severity r = ''error'')) \<and>
         (Status report = ''pass'' \<longleftrightarrow>
            \<not> (\<exists>r \<in> set (RuleResults report). \<not> Passed r \<and> Severity r = ''error'') \<and>
            \<not> (\<exists>r \<in> set (RuleResults report). \<not> Passed r \<and> Severity r = ''warning'') \<and>
            \<not> drift_detected (DriftStatus report)) \<and>
         (\<forall>s rs rs'. mset rs' = mset rs \<longrightarrow> foldl escalate s rs' = foldl escalate s rs)"
proof (intro conjI allI impI)
  show d: "Status report = derived_status (RuleResults report) (DriftStatus report)"
    unfolding assms by (rule validateResource_status)
  show "derived_status rs' (DriftStatus report) = Status report"
    if "mset rs' = mset (RuleResults report)" for rs'
    using mset_eq_setD [OF that] by (simp add: d derived_status_def list_ex_iff)
  show "Status report = ''fail'' \<longleftrightarrow>
          (\<exists>r \<in> set (RuleResults report). \<not> Passed r \<and> Severity r = ''error'')"
    by (simp add: d derived_status_def list_ex_iff)
  show "Status report = ''pass'' \<longleftrightarrow>
            \<not> (\<exists>r \<in> set (RuleResults report). \<not> Passed r \<and> Severity r = ''error'') \<and>
            \<not> (\<exists>r \<in> set (RuleResults report). \<not> Passed r \<and> Severity r = ''warning'') \<and>
            \<not> drift_detected (DriftStatus report)"
    by (simp add: d derived_status_def list_ex_iff)
  show "foldl escalate s rs' = foldl escalate s rs" if "mset rs' = mset rs" for s rs rs'
    using mset_eq_setD [OF that] by (auto simp: foldl_escalate list_ex_iff)
qed

text \<open>The instance of the tagging scenario lacks the tag \<^verbatim>\<open>Owner\<close>: its report fails.\<close>

lemma prod_instance_report:
  "Status (validateResource fragment_lib (keep_order 0) live_validator prod_instance) = ''fail''"
  by (simp add: validateResource_def live_validator_def prod_instance_def required_tags_rule_def
        GetRulesForResource_def matchResourceType_def fragment_lib_def fragment_engine_def ordinary_def
        ascii_def is_meta_def
        EvaluateRule_def keep_order_def evaluateCondition_def checkRequiredTags_def escalate_def
        extractResourceID_def nonempty_string_def aws_DetectDrift_def detectDriftWith_def
        absent_instance_def ModeValidateExisting_def Let_def)

theorem status_is_derived_witness:
  "Status (validateResource fragment_lib (keep_order 0) live_validator prod_instance) =
     derived_status
       (RuleResults (validateResource fragment_lib (keep_order 0) live_validator prod_instance))
       (DriftStatus (validateResource fragment_lib (keep_order 0) live_validator prod_instance)) \<and>
   Status (validateResource fragment_lib (keep_order 0) live_validator prod_instance) = ''fail''"
  using status_is_derived [OF refl, of fragment_lib "keep_order 0" live_validator prod_instance]
        prod_instance_report
  by blast


section \<open>One report for each resource\<close>

lemma validateResource_results:
  "validateResource lib rgs (v\<lparr>results := x\<rparr>) resource = validateResource lib rgs v resource"
  by (simp add: validateResource_def Let_def)

lemma validateResource_address:
  "ResourceAddress (validateResource lib rgs v resource) = res_Address resource"
proof -
  have "ResourceAddress (evaluateLoop lib rgs 0
          (GetRulesForResource (regexp_MatchString lib) (rulesEngine v) (res_Type resource)) resource
          \<lparr>ResourceAddress = res_Address resource, ResourceType = res_Type resource,
           Provider = res_ProviderName resource, Status = ''pass'', RuleResults = [],
           DriftStatus = None, Errors = []\<rparr>) = res_Address resource"
    by (simp add: evaluateLoop_fields)
  then show ?thesis
    by (auto simp: validateResource_def Let_def split: option.splits sum.splits)
qed

lemma resourcesLoop_results:
  "\<exists>reps. resourcesLoop lib rgss k rs v = v\<lparr>results := results v @ reps\<rparr> \<and>
          list_all2 (report_of lib v) reps rs"
proof (induction rs arbitrary: k v)
  case Nil
  show ?case by simp
next
  case (Cons resource rest)
  define v1 where "v1 = v\<lparr>results := results v @ [validateResource lib (rgss k) v resource]\<rparr>"
  obtain reps where reps: "resourcesLoop lib rgss (Suc k) rest v1 = v1\<lparr>results := results v1 @ reps\<rparr>"
      and all: "list_all2 (report_of lib v1) reps rest"
    using Cons.IH [of "Suc k" v1] by blast
  have same: "report_of lib v1 = report_of lib v"
    by (simp add: report_of_def v1_def fun_eq_iff)
  have first: "report_of lib v (validateResource lib (rgss k) v resource) resource"
    unfolding report_of_def
    using validateResource_results [where lib = lib and rgs = "rgss k" and v = v and x = "[]"
            and resource = resource] by metis
  have "resourcesLoop lib rgss k (resource # rest) v =
          v\<lparr>results := results v @ (validateResource lib (rgss k) v resource # reps)\<rparr>"
    using reps by (simp add: v1_def)
  moreover have "list_all2 (report_of lib v) (validateResource lib (rgss k) v resource # reps)
                   (resource # rest)"
    using all first by (simp add: same)
  ultimately show ?case by blast
qed

lemma fold_count_report:
  "Reports (fold count_report reps summary) = Reports summary \<and>
   TotalResources (fold count_report reps summary) = TotalResources summary"
proof (induction reps arbitrary: summary)
  case Nil
  show ?case by simp
next
  case (Cons rep reps)
  have "Reports (count_report rep summary) = Reports summary \<and>
        TotalResources (count_report rep summary) = TotalResources summary"
    by (simp add: count_report_def Let_def split: option.splits)
  with Cons.IH [of "count_report rep summary"] show ?case by simp
qed

lemma generateSummary_reports:
  "Reports (generateSummary v) = results v \<and>
   TotalResources (generateSummary v) = int (length (results v))"
  by (simp add: generateSummary_def fold_count_report)

lemma initializeCloudAdapter_adapter:
  "initializeCloudAdapter w v p = Inr v' \<Longrightarrow> v' = v\<lparr>cloudAdapter := Some (ad_DetectDrift w p)\<rparr>"
  by (auto simp: initializeCloudAdapter_def split: if_splits option.splits)

lemma Validate_summary:
  assumes "Validate lib rgss w v = (Inr summary, effects)"
  shows "\<exists>plan provider v''. tf_ShowJSON w = Inr plan \<and>
           validateResources lib rgss (v\<lparr>cloudAdapter := Some (ad_DetectDrift w provider)\<rparr>) plan
             = Inr v'' \<and>
           summary = generateSummary v''"
proof -
  obtain plan provider where plan: "tf_ShowJSON w = Inr plan"
      and vp: "validatePlan lib rgss w (v\<lparr>cloudAdapter := Some (ad_DetectDrift w provider)\<rparr>) plan
                 = (Inr summary, effects)"
    using assms initializeCloudAdapter_adapter [of w v _ _]
    by (auto simp: Validate_def split: option.splits sum.splits if_splits)
  have "fst (validatePlan lib rgss w (v\<lparr>cloudAdapter := Some (ad_DetectDrift w provider)\<rparr>) plan)
          = Inr summary"
    using vp by simp
  then obtain v'' where
      "validateResources lib rgss (v\<lparr>cloudAdapter := Some (ad_DetectDrift w provider)\<rparr>) plan = Inr v''"
      and "summary = generateSummary v''"
    by (auto simp: validatePlan_fst split: sum.splits if_splits option.splits)
  with plan show ?thesis by blast
qed

lemma report_of_results:
  assumes "list_all2 (report_of lib v) reps rs"
  shows "list_all2 (\<lambda>report resource. \<exists>rgs. report = validateResource lib rgs v resource) reps rs"
    and "map ResourceAddress reps = map res_Address rs"
    and "\<forall>report \<in> set reps.
           Status report = derived_status (RuleResults report) (DriftStatus report)"
  using assms
proof (induction reps rs rule: list_all2_induct)
  case Nil
  { case 1 show ?case by simp }
  { case 2 show ?case by simp }
  { case 3 show ?case by simp }
next
  case (Cons rep reps r rs)
  obtain rgs where rep: "rep = validateResource lib rgs v r"
    using Cons.hyps(1) validateResource_results [where v = v and x = "[]"]
    by (auto simp: report_of_def)
  { case 1 show ?case using rep Cons.IH(1) by auto }
  { case 2 show ?case using rep Cons.IH(2) by (simp add: validateResource_address) }
  { case 3 show ?case using rep Cons.IH(3) by (simp add: validateResource_status) }
qed

lemma depth_first_concat: "depth_first stack = concat (map collectResources stack)"
  by (induction stack rule: depth_first.induct) simp_all

lemma collectResources_depth_first: "collectResources m = depth_first [m]"
  by (simp add: depth_first_concat)

lemma mset_collectResources: "mset (collectResources m) = tree_resources m"
proof (induction m)
  case (Module resources childModules address)
  have "map (\<lambda>c. mset (collectResources c)) childModules = map tree_resources childModules"
    using Module by (intro map_cong) simp_all
  then have "(\<Sum>c\<leftarrow>childModules. mset (collectResources c)) =
               sum_list (map tree_resources childModules)"
    by (rule arg_cong [where f = sum_list])
  then show ?case by (simp add: mset_concat comp_def)
qed


lemma report_of_derived:
  assumes "list_all2 (report_of lib v) reps rs"
  shows "list_all status_derived reps"
  using report_of_results(3) [OF assms] by (simp add: list_all_iff status_derived_def)

text \<open>
  Claim C9, as amended. A run that returns a summary appends to the reports the validator
  already holds exactly one report for each resource of the module tree, in the order of
  the depth-first walk (the resources of a module before those of its child modules): the
  report that \<^verbatim>\<open>validateResource\<close> makes of this resource. On a validator fresh from
  \<^verbatim>\<open>NewValidator\<close> the summary thus holds exactly one report for each resource of the tree.
  \<^verbatim>\<open>TotalResources\<close> is the number of reports in the summary. The status of every appended
  report is the one derived from its own rule results and drift status, so that all
  statuses of the summary are derived whenever those of the earlier reports were.
\<close>

theorem one_report_per_resource:
  assumes "Validate lib rgss w v = (Inr summary, effects)"
  shows "\<exists>plan pv root provider reps.
           tf_ShowJSON w = Inr plan \<and> PlannedValues plan = Some pv \<and> RootModule pv = Some root \<and>
           Reports summary = results v @ reps \<and>
           list_all2 (\<lambda>report resource. \<exists>rgs. report =
                validateResource lib rgs (v\<lparr>cloudAdapter := Some (ad_DetectDrift w provider)\<rparr>) resource)
             reps (depth_first [root]) \<and>
           map ResourceAddress reps = map res_Address (depth_first [root]) \<and>
           mset (depth_first [root]) = tree_resources root \<and>
           list_all status_derived reps \<and>
           TotalResources summary = int (length (Reports summary)) \<and>
           (list_all status_derived (results v) \<longrightarrow> list_all status_derived (Reports summary)) \<and>
           (\<forall>cfg client engine. NewValidator cfg client engine = Inr v \<longrightarrow>
              Reports summary = reps \<and> size (tree_resources root) = length (Reports summary))"
proof -
  obtain plan provider v'' where plan: "tf_ShowJSON w = Inr plan"
      and vr: "validateResources lib rgss (v\<lparr>cloudAdapter := Some (ad_DetectDrift w provider)\<rparr>) plan
                 = Inr v''"
      and sm: "summary = generateSummary v''"
    using Validate_summary [OF assms] by blast
  define v1 where "v1 = v\<lparr>cloudAdapter := Some (ad_DetectDrift w provider)\<rparr>"
  obtain pv root where pv: "PlannedValues plan = Some pv" and root: "RootModule pv = Some root"
      and v'': "v'' = resourcesLoop lib rgss 0 (collectResources root) v1"
    using vr by (auto simp: validateResources_def v1_def split: option.splits)
  obtain reps where reps: "v'' = v1\<lparr>results := results v1 @ reps\<rparr>"
      and all: "list_all2 (report_of lib v1) reps (depth_first [root])"
    using resourcesLoop_results [of lib rgss 0 "collectResources root" v1] v''
    by (auto simp: collectResources_depth_first)
  have rs: "Reports summary = results v @ reps"
    and tot: "TotalResources summary = int (length (Reports summary))"
    using generateSummary_reports [of v''] by (simp_all add: sm reps v1_def)
  have len: "length reps = length (depth_first [root])"
    using all by (rule list_all2_lengthD)
  have ms: "mset (depth_first [root]) = tree_resources root"
    using mset_collectResources [of root] by (simp add: collectResources_depth_first)
  have sz: "size (tree_resources root) = length reps"
    using len ms by (metis size_mset)
  have der: "list_all status_derived reps"
    using all by (rule report_of_derived)
  have fresh: "results v = []" if "NewValidator cfg client engine = Inr v" for cfg client engine
    using that by (auto simp: NewValidator_def split: if_splits option.splits sum.splits)
  have "Reports summary = results v @ reps \<and>
        list_all2 (\<lambda>report resource. \<exists>rgs. report = validateResource lib rgs v1 resource)
          reps (depth_first [root]) \<and>
        map ResourceAddress reps = map res_Address (depth_first [root]) \<and>
        mset (depth_first [root]) = tree_resources root \<and>
        list_all status_derived reps \<and>
        TotalResources summary = int (length (Reports summary)) \<and>
        (list_all status_derived (results v) \<longrightarrow> list_all status_derived (Reports summary)) \<and>
        (\<forall>cfg client engine. NewValidator cfg client engine = Inr v \<longrightarrow>
           Reports summary = reps \<and> size (tree_resources root) = length (Reports summary))"
    using report_of_results(1,2) [OF all] rs tot ms der sz fresh by auto
  then show ?thesis
    using plan pv root unfolding v1_def by blast
qed

lemma deep_validator_new:
  "NewValidator (config deep_validator) None (Inr tagging_policy) = Inr deep_validator"
  by (simp add: NewValidator_def deep_validator_def)

lemma deep_run_summary:
  "Validate fragment_lib keep_order deep_run deep_validator = (Inr deep_summary, [], [])"
  by (simp add: Validate_def deep_run_def deep_validator_def deep_root_def
        initializeCloudAdapter_def validatePlan_def validateResources_def
        validateResource_def GetRulesForResource_def matchResourceType_def fragment_lib_def
        fragment_engine_def ordinary_def ascii_def is_meta_def tagging_policy_def
        required_tags_rule_def EvaluateRule_def keep_order_def evaluateCondition_def
        checkRequiredTags_def escalate_def prod_instance_def extractResourceID_def
        nonempty_string_def aws_DetectDrift_def detectDriftWith_def absent_instance_def
        generateSummary_def count_report_def deep_summary_def
        ModeValidateExisting_def ModeEphemeralSandbox_def Let_def)

text \<open>The run on the plan that nests two levels deep: four reports, in the order of the
  walk.\<close>

theorem one_report_per_resource_witness:
  "Validate fragment_lib keep_order deep_run deep_validator = (Inr deep_summary, [], []) \<and>
   NewValidator (config deep_validator) None (Inr tagging_policy) = Inr deep_validator \<and>
   TotalResources deep_summary = int (length (Reports deep_summary)) \<and>
   list_all status_derived (Reports deep_summary) \<and>
   map ResourceAddress (Reports deep_summary) = map res_Address (depth_first [deep_root]) \<and>
   map res_Address (depth_first [deep_root]) =
     [''aws_instance.web'', ''module.net.aws_instance.gw'',
      ''module.net.module.db.aws_instance.db'', ''module.app.aws_instance.app'']"
proof -
  have order: "map res_Address (depth_first [deep_root]) =
     [''aws_instance.web'', ''module.net.aws_instance.gw'',
      ''module.net.module.db.aws_instance.db'', ''module.app.aws_instance.app'']"
    by (simp add: deep_root_def prod_instance_def)
  moreover have "map ResourceAddress (Reports deep_summary) =
     [''aws_instance.web'', ''module.net.aws_instance.gw'',
      ''module.net.module.db.aws_instance.db'', ''module.app.aws_instance.app'']"
    by (simp add: deep_summary_def)
  moreover have "results deep_validator = []"
    by (simp add: deep_validator_def)
  ultimately show ?thesis
    using one_report_per_resource [OF deep_run_summary] deep_run_summary deep_validator_new
    by (auto simp del: depth_first.simps)
qed

text \<open>
  The claim as stated fails: \<^verbatim>\<open>Validate\<close> never empties the reports of the validator, so
  a second run on the validator the first one leaves behind returns four reports, and
  \<^verbatim>\<open>TotalResources\<close> four, for a plan of two resources.
\<close>

theorem one_report_per_resource_counterexample:
  "NewValidator (config fresh_validator) None (Inr (rulesEngine fresh_validator))
     = Inr fresh_validator \<and>
   Validate fragment_lib keep_order live_run fresh_validator = (Inr nested_summary, [], []) \<and>
   Validate fragment_lib keep_order live_run
       (validator_after fragment_lib keep_order live_run fresh_validator)
     = (Inr doubled_summary, [], []) \<and>
   length (depth_first [nested_root]) = 2 \<and>
   length (Reports doubled_summary) = 4 \<and>
   TotalResources doubled_summary = 4"
  by (simp add: NewValidator_def Validate_def validator_after_def live_run_def destroy_fails_def
        fresh_validator_def initializeCloudAdapter_def validatePlan_def validateResources_def
        nested_plan_def nested_root_def validateResource_def GetRulesForResource_def
        prod_instance_def extractResourceID_def nonempty_string_def generateSummary_def
        count_report_def nested_summary_def doubled_summary_def
        ModeValidateExisting_def ModeEphemeralSandbox_def Let_def)

section \<open>Required tags\<close>

lemma HasPrefix_append: "HasPrefix (k @ b) k"
  by (induction k) simp_all

lemma Contains_here: "Contains (k @ b) k"
  by (cases "k @ b") (simp, metis Contains.simps(2) HasPrefix_append)

lemma Contains_append: "Contains (a @ k @ b) k"
  by (induction a) (simp_all add: Contains_here)

lemma Join_mem: "k \<in> set xs \<Longrightarrow> \<exists>a b. Join xs sep = a @ k @ b"
proof (induction xs sep rule: Join.induct)
  case (1 sep)
  then show ?case by simp
next
  case (2 x sep)
  then have "Join [x] sep = [] @ k @ []" by simp
  then show ?case by blast
next
  case (3 x y ys sep)
  show ?case
  proof (cases "k = x")
    case True
    then have "Join (x # y # ys) sep = [] @ k @ (sep @ Join (y # ys) sep)" by simp
    then show ?thesis by blast
  next
    case False
    with 3 obtain a b where "Join (y # ys) sep = a @ k @ b" by auto
    then have "Join (x # y # ys) sep = (x @ sep @ a) @ k @ b" by simp
    then show ?thesis by blast
  qed
qed

lemma Contains_Join: "k \<in> set xs \<Longrightarrow> Contains (pre @ Join xs sep) k"
proof -
  assume "k \<in> set xs"
  then obtain a b where "Join xs sep = a @ k @ b" using Join_mem by blast
  then have "pre @ Join xs sep = (pre @ a) @ k @ b" by simp
  then show ?thesis using Contains_append [of "pre @ a" k b] by simp
qed

text \<open>
  Claim C7. The condition \<^verbatim>\<open>tags.required\<close> passes exactly when the resource has a tags
  mapping in which every listed key exists. When keys are missing it fails and the detail it
  appends lists them, so it contains each missing key; a resource with no \<^verbatim>\<open>tags\<close> key
  fails as well. With \<^verbatim>\<open>[Environment, Owner]\<close> required and the tags
  \<^verbatim>\<open>{Environment: "prod"}\<close> the rule fails and the detail names \<^verbatim>\<open>Owner\<close>.
\<close>

theorem required_tags_verdict:
  "(fst (checkRequiredTags (VList requiredTags) resource ds) \<longleftrightarrow>
      (\<exists>tags. map_of resource ''tags'' = Some (VMap tags) \<and>
              (\<forall>tag \<in> set requiredTags. map_of tags (Sprint tag) \<noteq> None))) \<and>
   (\<forall>tags. map_of resource ''tags'' = Some (VMap tags) \<and>
           \<not> fst (checkRequiredTags (VList requiredTags) resource ds) \<longrightarrow>
      snd (checkRequiredTags (VList requiredTags) resource ds) =
        ds @ [''Missing required tags: '' @
               Join (filter (\<lambda>k. map_of tags k = None) (map Sprint requiredTags)) '', ''] \<and>
      (\<forall>tag \<in> set requiredTags. map_of tags (Sprint tag) = None \<longrightarrow>
         Contains (last (snd (checkRequiredTags (VList requiredTags) resource ds))) (Sprint tag))) \<and>
   (fst (checkRequiredTags (VList requiredTags) resource ds) \<longrightarrow>
      snd (checkRequiredTags (VList requiredTags) resource ds) = ds) \<and>
   (map_of resource ''tags'' = None \<longrightarrow>
      checkRequiredTags (VList requiredTags) resource ds = (False, ds @ [''No tags found on resource''])) \<and>
   evaluateCondition lib visit ''tags.required'' (VList requiredTags) resource ds
     = checkRequiredTags (VList requiredTags) resource ds \<and>
   checkRequiredTags (VList [VStr ''Environment'', VStr ''Owner''])
       [(''tags'', VMap [(''Environment'', VStr ''prod'')])] []
     = (False, [''Missing required tags: Owner'']) \<and>
   (admissible rg \<longrightarrow>
      \<not> Passed (EvaluateRule lib rg required_tags_rule tagless_instance) \<and>
      \<not> Passed (EvaluateRule lib rg required_tags_rule (res_Values prod_instance)) \<and>
      Details (EvaluateRule lib rg required_tags_rule (res_Values prod_instance))
        = [''Missing required tags: Owner''])"
proof (intro conjI allI impI ballI)
  show "fst (checkRequiredTags (VList requiredTags) resource ds) \<longleftrightarrow>
      (\<exists>tags. map_of resource ''tags'' = Some (VMap tags) \<and>
              (\<forall>tag \<in> set requiredTags. map_of tags (Sprint tag) \<noteq> None))"
    by (auto simp: checkRequiredTags_def Let_def filter_empty_conv split: option.splits val.splits)
  show "fst (checkRequiredTags (VList requiredTags) resource ds) \<Longrightarrow>
          snd (checkRequiredTags (VList requiredTags) resource ds) = ds"
    by (auto simp: checkRequiredTags_def Let_def split: option.splits val.splits if_splits)
  show "map_of resource ''tags'' = None \<Longrightarrow>
          checkRequiredTags (VList requiredTags) resource ds
            = (False, ds @ [''No tags found on resource''])"
    by (simp add: checkRequiredTags_def)
  show "evaluateCondition lib visit ''tags.required'' (VList requiredTags) resource ds
          = checkRequiredTags (VList requiredTags) resource ds"
    by (simp add: evaluateCondition_def)
  show "checkRequiredTags (VList [VStr ''Environment'', VStr ''Owner''])
          [(''tags'', VMap [(''Environment'', VStr ''prod'')])] []
        = (False, [''Missing required tags: Owner''])"
    by (simp add: checkRequiredTags_def)
next
  assume rg: "admissible rg"
  have one: "range_conditions rg (rule_Conditions required_tags_rule) = rule_Conditions required_tags_rule"
  proof -
    have "mset (range_conditions rg (rule_Conditions required_tags_rule)) =
            mset (rule_Conditions required_tags_rule)"
      using rg by (simp add: admissible_def)
    then show ?thesis by (simp add: required_tags_rule_def mset_single_iff)
  qed
  show "\<not> Passed (EvaluateRule lib rg required_tags_rule tagless_instance)"
    by (simp add: EvaluateRule_Passed [OF rg] failing_def condition_passes_def
          evaluateCondition_def checkRequiredTags_def required_tags_rule_def tagless_instance_def)
  show "\<not> Passed (EvaluateRule lib rg required_tags_rule (res_Values prod_instance))"
    by (simp add: EvaluateRule_Passed [OF rg] failing_def condition_passes_def
          evaluateCondition_def checkRequiredTags_def required_tags_rule_def prod_instance_def)
  show "Details (EvaluateRule lib rg required_tags_rule (res_Values prod_instance))
          = [''Missing required tags: Owner'']"
    unfolding EvaluateRule_Details [OF rg] one
    by (simp add: failing_def condition_passes_def
          evaluateCondition_def checkRequiredTags_def required_tags_rule_def prod_instance_def)
next
  fix tags
  assume a: "map_of resource ''tags'' = Some (VMap tags) \<and>
             \<not> fst (checkRequiredTags (VList requiredTags) resource ds)"
  then show d: "snd (checkRequiredTags (VList requiredTags) resource ds) =
        ds @ [''Missing required tags: '' @
               Join (filter (\<lambda>k. map_of tags k = None) (map Sprint requiredTags)) '', '']"
    by (auto simp: checkRequiredTags_def Let_def split: if_splits)
  fix tag
  assume "tag \<in> set requiredTags" and "map_of tags (Sprint tag) = None"
  then have m: "Sprint tag \<in> set (filter (\<lambda>k. map_of tags k = None) (map Sprint requiredTags))"
    by simp
  show "Contains (last (snd (checkRequiredTags (VList requiredTags) resource ds))) (Sprint tag)"
    unfolding d last_snoc by (rule Contains_Join [OF m])
qed



text \<open>The scenario of the specification.\<close>

theorem required_tags_verdict_witness:
  "map_of [(''tags'', VMap [(''Environment'', VStr ''prod'')])] ''tags''
       = Some (VMap [(''Environment'', VStr ''prod'')]) \<and>
   \<not> fst (checkRequiredTags (VList [VStr ''Environment'', VStr ''Owner''])
            [(''tags'', VMap [(''Environment'', VStr ''prod'')])] []) \<and>
   Contains (last (snd (checkRequiredTags (VList [VStr ''Environment'', VStr ''Owner''])
            [(''tags'', VMap [(''Environment'', VStr ''prod'')])] []))) ''Owner''"
  using required_tags_verdict [of "[VStr ''Environment'', VStr ''Owner'']"
          "[(''tags'', VMap [(''Environment'', VStr ''prod'')])]" "[]" fragment_lib id
          "\<lparr>range_conditions = id, range_fields = id\<rparr>"]
  by (simp add: checkRequiredTags_def)

section \<open>Conditions whose subject is absent\<close>

lemma publicLoop_absent:
  "absent resource fs \<Longrightarrow> publicLoop ToLower fs resource ds = (True, ds)"
  by (induction fs) (simp_all add: absent_def)

lemma namingLoop_absent:
  "absent resource fs \<Longrightarrow> namingLoop re pattern fs resource ds = (True, ds)"
  by (induction fs) (simp_all add: absent_def)

lemma split_dots_Cons: "\<exists>p ps. split_dots s = p # ps"
  by (induction s) (auto split: list.splits)

lemma property_absent:
  assumes "map_of resource (hd (split_dots path)) = None"
  shows "checkProperty path expected resource ds =
           (False, ds @ [''Property '' @ quoted path @ '' not found''])"
proof -
  obtain p ps where s: "split_dots path = p # ps" using split_dots_Cons by blast
  with assms show ?thesis by (simp add: checkProperty_def)
qed

lemma absent_naming:
  assumes "absent resource nameFields"
  shows "evaluateCondition lib visit ''naming.pattern'' expected resource ds = (True, ds)"
  using namingLoop_absent [OF assms]
  by (simp add: evaluateCondition_def checkNamingPattern_def split: val.splits)

lemma absent_privilege:
  assumes "absent resource policyFields"
  shows "evaluateCondition lib visit ''iam.least_privilege'' expected resource ds = (True, ds)"
  using assms
  by (simp add: evaluateCondition_def checkLeastPrivilege_def absent_def policyFields_def
        wildcard_policy_def)

lemma absent_subnet:
  assumes "absent resource [''subnet_id'']"
  shows "evaluateCondition lib visit ''network.private_subnet'' expected resource ds = (True, ds)"
  using assms by (simp add: evaluateCondition_def checkPrivateSubnet_def absent_def)

lemma absent_public:
  assumes "absent resource publicFields" and "set (visit publicFields) \<subseteq> set publicFields"
  shows "evaluateCondition lib visit ''public_access.blocked'' expected resource ds = (True, ds)"
proof -
  have "absent resource (visit publicFields)"
    using assms by (auto simp: absent_def list_all_iff)
  then show ?thesis
    using publicLoop_absent [of resource "visit publicFields" "strings_ToLower lib" ds]
    by (simp add: evaluateCondition_def checkPublicAccessBlocked_def)
qed

lemma absent_tags:
  assumes "absent resource [''tags'']"
  shows "\<not> fst (evaluateCondition lib visit ''tags.required'' expected resource ds)"
  using assms
  by (simp add: evaluateCondition_def checkRequiredTags_def absent_def split: val.splits)

lemma absent_encryption:
  assumes "absent resource encryptionFields"
  shows "\<not> fst (evaluateCondition lib visit ''encryption.enabled'' (VBool True) resource ds)"
  using assms
  by (simp add: evaluateCondition_def checkEncryptionEnabled_def absent_def encryptionFields_def
        true_or_nonempty_def)

lemma absent_versioning:
  assumes "absent resource versioningFields"
  shows "\<not> fst (evaluateCondition lib visit ''versioning.enabled'' (VBool True) resource ds)"
  using assms
  by (simp add: evaluateCondition_def checkVersioningEnabled_def absent_def versioningFields_def
        versioning_on_def)

lemma absent_logging:
  assumes "absent resource loggingFields"
  shows "\<not> fst (evaluateCondition lib visit ''logging.enabled'' (VBool True) resource ds)"
  using assms
  by (simp add: evaluateCondition_def checkLoggingEnabled_def absent_def loggingFields_def
        true_or_nonempty_def)

lemma absent_backup:
  assumes "absent resource backupFields"
  shows "\<not> fst (evaluateCondition lib visit ''backup.enabled'' (VBool True) resource ds)"
  using assms
  by (simp add: evaluateCondition_def checkBackupEnabled_def absent_def backupFields_def
        backup_on_def)

lemma absent_generic:
  assumes "condition \<notin> set named_conditions" and "absent resource [hd (split_dots condition)]"
  shows "\<not> fst (evaluateCondition lib visit condition expected resource ds)"
proof -
  have "evaluateCondition lib visit condition expected resource ds =
          checkProperty condition expected resource ds"
    using assms(1) by (simp add: evaluateCondition_def named_conditions_def)
  then show ?thesis
    using assms(2) property_absent [of resource condition expected ds] by (simp add: absent_def)
qed


text \<open>
  Claim C5, as amended. When none of the attributes a condition is about is present in the
  resource, the condition fails and appends one detail for \<^verbatim>\<open>tags.required\<close>, for
  \<^verbatim>\<open>encryption.enabled\<close>, \<^verbatim>\<open>versioning.enabled\<close>, \<^verbatim>\<open>logging.enabled\<close> and
  \<^verbatim>\<open>backup.enabled\<close> expected to be true, and for the generic property check; it passes
  and appends nothing for \<^verbatim>\<open>naming.pattern\<close>, \<^verbatim>\<open>iam.least_privilege\<close>,
  \<^verbatim>\<open>network.private_subnet\<close> and \<^verbatim>\<open>public_access.blocked\<close>.
\<close>

theorem absent_subject_field:
  assumes "absent resource (subject_fields condition)"
      and "set (visit publicFields) \<subseteq> set publicFields"
  shows "(condition \<in> {''naming.pattern'', ''iam.least_privilege'', ''network.private_subnet'',
                        ''public_access.blocked''} \<longrightarrow>
            evaluateCondition lib visit condition expected resource ds = (True, ds)) \<and>
         (condition = ''tags.required'' \<or>
          condition \<in> {''encryption.enabled'', ''versioning.enabled'', ''logging.enabled'',
                        ''backup.enabled''} \<and> expected = VBool True \<or>
          condition \<notin> set named_conditions \<longrightarrow>
            \<not> fst (evaluateCondition lib visit condition expected resource ds) \<and>
            (\<exists>d. snd (evaluateCondition lib visit condition expected resource ds) = ds @ [d]))"
proof (intro conjI impI)
  assume "condition \<in> {''naming.pattern'', ''iam.least_privilege'', ''network.private_subnet'',
                         ''public_access.blocked''}"
  then have "condition = ''naming.pattern'' \<or> condition = ''iam.least_privilege'' \<or>
             condition = ''network.private_subnet'' \<or> condition = ''public_access.blocked''"
    by simp
  then show "evaluateCondition lib visit condition expected resource ds = (True, ds)"
  proof (elim disjE)
    assume c: "condition = ''naming.pattern''"
    have "absent resource nameFields" using assms(1) unfolding c by (simp add: subject_fields_def)
    then show ?thesis unfolding c by (rule absent_naming)
  next
    assume c: "condition = ''iam.least_privilege''"
    have "absent resource policyFields" using assms(1) unfolding c by (simp add: subject_fields_def)
    then show ?thesis unfolding c by (rule absent_privilege)
  next
    assume c: "condition = ''network.private_subnet''"
    have "absent resource [''subnet_id'']"
      using assms(1) unfolding c by (simp add: subject_fields_def)
    then show ?thesis unfolding c by (rule absent_subnet)
  next
    assume c: "condition = ''public_access.blocked''"
    have "absent resource publicFields" using assms(1) unfolding c by (simp add: subject_fields_def)
    then show ?thesis unfolding c using assms(2) by (rule absent_public)
  qed
next
  assume "condition = ''tags.required'' \<or>
          condition \<in> {''encryption.enabled'', ''versioning.enabled'', ''logging.enabled'',
                        ''backup.enabled''} \<and> expected = VBool True \<or>
          condition \<notin> set named_conditions"
  then have "condition = ''tags.required'' \<or>
          condition = ''encryption.enabled'' \<and> expected = VBool True \<or>
          condition = ''versioning.enabled'' \<and> expected = VBool True \<or>
          condition = ''logging.enabled'' \<and> expected = VBool True \<or>
          condition = ''backup.enabled'' \<and> expected = VBool True \<or>
          condition \<notin> set named_conditions"
    by (elim disjE conjE insertE emptyE) simp_all
  then have fails: "\<not> fst (evaluateCondition lib visit condition expected resource ds)"
  proof (elim disjE conjE)
    assume c: "condition = ''tags.required''"
    have "absent resource [''tags'']" using assms(1) unfolding c by (simp add: subject_fields_def)
    then show ?thesis unfolding c by (rule absent_tags)
  next
    assume c: "condition = ''encryption.enabled''" and e: "expected = VBool True"
    have "absent resource encryptionFields"
      using assms(1) unfolding c by (simp add: subject_fields_def)
    then show ?thesis unfolding c e by (rule absent_encryption)
  next
    assume c: "condition = ''versioning.enabled''" and e: "expected = VBool True"
    have "absent resource versioningFields"
      using assms(1) unfolding c by (simp add: subject_fields_def)
    then show ?thesis unfolding c e by (rule absent_versioning)
  next
    assume c: "condition = ''logging.enabled''" and e: "expected = VBool True"
    have "absent resource loggingFields"
      using assms(1) unfolding c by (simp add: subject_fields_def)
    then show ?thesis unfolding c e by (rule absent_logging)
  next
    assume c: "condition = ''backup.enabled''" and e: "expected = VBool True"
    have "absent resource backupFields"
      using assms(1) unfolding c by (simp add: subject_fields_def)
    then show ?thesis unfolding c e by (rule absent_backup)
  next
    assume c: "condition \<notin> set named_conditions"
    have "absent resource [hd (split_dots condition)]"
      using assms(1) c by (simp add: subject_fields_def named_conditions_def)
    with c show ?thesis by (rule absent_generic)
  qed
  show "\<not> fst (evaluateCondition lib visit condition expected resource ds)"
    by (rule fails)
  show "\<exists>d. snd (evaluateCondition lib visit condition expected resource ds) = ds @ [d]"
    using evaluateCondition_details [of ds lib visit condition expected resource] fails
    by (simp add: one_more_def)
qed


text \<open>A resource without any encryption attribute fails \<^verbatim>\<open>encryption.enabled\<close>.\<close>

theorem absent_subject_field_witness:
  "absent tagless_instance (subject_fields ''encryption.enabled'') \<and>
   set (id publicFields) \<subseteq> set publicFields \<and>
   evaluateCondition fragment_lib id ''encryption.enabled'' (VBool True) tagless_instance []
     = (False, [''Encryption is not enabled''])"
  using absent_subject_field [of tagless_instance "''encryption.enabled''" id fragment_lib
          "VBool True" "[]"]
  by (simp add: absent_def subject_fields_def encryptionFields_def tagless_instance_def
        evaluateCondition_def checkEncryptionEnabled_def true_or_nonempty_def)

text \<open>
  The claim as stated fails: a resource with no name, no policy and no subnet attribute
  passes \<^verbatim>\<open>naming.pattern\<close>, \<^verbatim>\<open>iam.least_privilege\<close> and \<^verbatim>\<open>network.private_subnet\<close>,
  with no detail.
\<close>

theorem absent_field_fails_counterexample:
  "map_of tagless_instance ''name'' = None \<and> map_of tagless_instance ''id'' = None \<and>
   map_of tagless_instance ''resource_name'' = None \<and>
   evaluateCondition fragment_lib id ''naming.pattern'' (VStr ''^prod-'') tagless_instance []
     = (True, []) \<and>
   map_of tagless_instance ''policy'' = None \<and> map_of tagless_instance ''policy_document'' = None \<and>
   map_of tagless_instance ''policy_arn'' = None \<and>
   evaluateCondition fragment_lib id ''iam.least_privilege'' (VBool True) tagless_instance []
     = (True, []) \<and>
   map_of tagless_instance ''subnet_id'' = None \<and>
   evaluateCondition fragment_lib id ''network.private_subnet'' (VBool True) tagless_instance []
     = (True, [])"
  by (simp add: tagless_instance_def evaluateCondition_def checkNamingPattern_def nameFields_def
        checkLeastPrivilege_def policyFields_def wildcard_policy_def checkPrivateSubnet_def)

section \<open>The rules of a resource type\<close>













end
